theory Spec2Isabelle
  imports Main "HOL-Library.Word" "HOL-Library.Monad_Syntax"
begin

unbundle bit_operations_syntax

section \<open>Data model\<close>

text \<open>
  The CPU state of the interpreter (\<^verbatim>\<open>CPU_t\<close>), the FPU state of \<^verbatim>\<open>fpu.h\<close>
  (\<^verbatim>\<open>FPU_t\<close>) and the two pieces of machine state that the core reads from outside the
  structure: the physical memory behind \<^verbatim>\<open>cpu_read\<close>/\<^verbatim>\<open>cpu_write\<close> and the global
  \<^verbatim>\<open>a20_enabled\<close> of \<^verbatim>\<open>i8042.c\<close>.  The header \<^verbatim>\<open>cpu.h\<close> is not among the sources:
  the fields below are the ones the code under \<^verbatim>\<open>src/\<close> uses, with the widths of
  their uses there.  \<^verbatim>\<open>protected_mode\<close>, \<^verbatim>\<open>handling_fault\<close> and \<^verbatim>\<open>valid\<close> are only
  assigned 0 or 1 and tested for zero: they are booleans here.
\<close>

type_synonym u8 = "8 word"
type_synonym u16 = "16 word"
type_synonym u32 = "32 word"
type_synonym u64 = "64 word"

text \<open>Indices of the general register file (\<^verbatim>\<open>regs.wordregs\<close>), in the order of the
  x86 register encoding, and of its byte-aliased view (\<^verbatim>\<open>regs.byteregs\<close>, little endian).\<close>

abbreviation (input) regax :: u8 where "regax \<equiv> 0"
abbreviation (input) regcx :: u8 where "regcx \<equiv> 1"
abbreviation (input) regdx :: u8 where "regdx \<equiv> 2"
abbreviation (input) regbx :: u8 where "regbx \<equiv> 3"
abbreviation (input) regsp :: u8 where "regsp \<equiv> 4"
abbreviation (input) regbp :: u8 where "regbp \<equiv> 5"
abbreviation (input) regsi :: u8 where "regsi \<equiv> 6"
abbreviation (input) regdi :: u8 where "regdi \<equiv> 7"

abbreviation (input) regal :: u8 where "regal \<equiv> 0"
abbreviation (input) regah :: u8 where "regah \<equiv> 1"

text \<open>The four segment registers index \<^verbatim>\<open>segregs[]\<close> and \<^verbatim>\<open>segcache[]\<close>.\<close>

datatype segreg = reges | regcs | regss | regds

record descriptor_cache =
  base :: u32
  limit :: u16
  access :: u8
  valid :: bool

record tss_cache = descriptor_cache +
  sp0 :: u16
  ss0 :: u16

record dtr =
  dtr_base :: u32
  dtr_limit :: u16

text \<open>A \<^verbatim>\<open>double\<close> is carried as its 64-bit pattern (\<^verbatim>\<open>union DoublePun\<close>).\<close>

record fpu_t =
  st :: "nat \<Rightarrow> u64"
  cw :: u16
  sw :: u16
  tw :: u16

record cpu =
  wordregs :: "u8 \<Rightarrow> u16"
  segregs :: "segreg \<Rightarrow> u16"
  segcache :: "segreg \<Rightarrow> descriptor_cache"
  ldtr_cache :: descriptor_cache
  tr_cache :: tss_cache
  gdtr :: dtr
  idtr :: dtr
  msw :: u16
  ldtr :: u16
  tr :: u16
  protected_mode :: bool
  handling_fault :: bool
  int_callback :: "u8 \<Rightarrow> nat option"
  ip :: u16
  savecs :: u16
  saveip :: u16
  useseg :: u16
  cf :: u8
  pf :: u8
  af :: u8
  zf :: u8
  sf :: u8
  tf :: u8
  ifl :: u8
  df :: u8
  ofl :: u8
  hltstate :: u8
  trap_toggle :: u8
  reptype :: u8
  segoverride :: u8
  opcode :: u8
  mode :: u8
  reg :: u8
  rm :: u8
  disp16 :: u16
  oper1 :: u16
  oper2 :: u16
  res16 :: u16
  oper1b :: u8
  oper2b :: u8
  res8 :: u8
  ea :: u32
  totalexec :: u64
  fpu :: fpu_t
  mem :: "u32 \<Rightarrow> u8"
  a20_enabled :: u8

section \<open>Flag engine\<close>

definition parity :: "u8 list" where
  "parity = [
   1, 0, 0, 1, 0, 1, 1, 0, 0, 1, 1, 0, 1, 0, 0, 1, 0, 1, 1, 0, 1, 0, 0, 1, 1, 0, 0, 1, 0, 1, 1, 0,
   0, 1, 1, 0, 1, 0, 0, 1, 1, 0, 0, 1, 0, 1, 1, 0, 1, 0, 0, 1, 0, 1, 1, 0, 0, 1, 1, 0, 1, 0, 0, 1,
   0, 1, 1, 0, 1, 0, 0, 1, 1, 0, 0, 1, 0, 1, 1, 0, 1, 0, 0, 1, 0, 1, 1, 0, 0, 1, 1, 0, 1, 0, 0, 1,
   1, 0, 0, 1, 0, 1, 1, 0, 0, 1, 1, 0, 1, 0, 0, 1, 0, 1, 1, 0, 1, 0, 0, 1, 1, 0, 0, 1, 0, 1, 1, 0,
   0, 1, 1, 0, 1, 0, 0, 1, 1, 0, 0, 1, 0, 1, 1, 0, 1, 0, 0, 1, 0, 1, 1, 0, 0, 1, 1, 0, 1, 0, 0, 1,
   1, 0, 0, 1, 0, 1, 1, 0, 0, 1, 1, 0, 1, 0, 0, 1, 0, 1, 1, 0, 1, 0, 0, 1, 1, 0, 0, 1, 0, 1, 1, 0,
   1, 0, 0, 1, 0, 1, 1, 0, 0, 1, 1, 0, 1, 0, 0, 1, 0, 1, 1, 0, 1, 0, 0, 1, 1, 0, 0, 1, 0, 1, 1, 0,
   0, 1, 1, 0, 1, 0, 0, 1, 1, 0, 0, 1, 0, 1, 1, 0, 1, 0, 0, 1, 0, 1, 1, 0, 0, 1, 1, 0, 1, 0, 0, 1]"

definition flag_szp8 :: "cpu \<Rightarrow> u8 \<Rightarrow> cpu" where
  "flag_szp8 s v =
     s\<lparr>zf := (if v = 0 then 1 else 0),
       sf := (if v AND 0x80 \<noteq> 0 then 1 else 0),
       pf := parity ! unat v\<rparr>"

definition flag_szp16 :: "cpu \<Rightarrow> u16 \<Rightarrow> cpu" where
  "flag_szp16 s v =
     s\<lparr>zf := (if v = 0 then 1 else 0),
       sf := (if v AND 0x8000 \<noteq> 0 then 1 else 0),
       pf := parity ! unat (v AND 255)\<rparr>"

text \<open>\<^verbatim>\<open>flag_add16\<close>: the sum is formed in 32 bits.\<close>

definition flag_add16 :: "cpu \<Rightarrow> u16 \<Rightarrow> u16 \<Rightarrow> cpu" where
  "flag_add16 s v1 v2 =
     (let dst = (ucast v1 + ucast v2 :: u32);
          s1 = flag_szp16 s (ucast dst);
          s2 = s1\<lparr>cf := (if dst AND 0xFFFF0000 \<noteq> 0 then 1 else 0)\<rparr>;
          s3 = s2\<lparr>ofl := (if (dst XOR ucast v1) AND (dst XOR ucast v2) AND 0x8000 = 0x8000
                          then 1 else 0)\<rparr>
      in s3\<lparr>af := (if (ucast v1 XOR ucast v2 XOR dst) AND 0x10 = 0x10 then 1 else 0)\<rparr>)"

text \<open>\<^verbatim>\<open>flag_sub8\<close>: the operands are widened, the difference is kept in 16 bits.\<close>

definition flag_sub8 :: "cpu \<Rightarrow> u8 \<Rightarrow> u8 \<Rightarrow> cpu" where
  "flag_sub8 s v1 v2 =
     (let dst = (ucast v1 - ucast v2 :: u16);
          s1 = flag_szp8 s (ucast dst);
          s2 = s1\<lparr>cf := (if dst AND 0xFF00 \<noteq> 0 then 1 else 0)\<rparr>;
          s3 = s2\<lparr>ofl := (if (dst XOR ucast v1) AND (ucast v1 XOR ucast v2) AND 0x80 \<noteq> 0
                          then 1 else 0)\<rparr>
      in s3\<lparr>af := (if (ucast v1 XOR ucast v2 XOR dst) AND 0x10 \<noteq> 0 then 1 else 0)\<rparr>)"

definition flag_sub16 :: "cpu \<Rightarrow> u16 \<Rightarrow> u16 \<Rightarrow> cpu" where
  "flag_sub16 s v1 v2 =
     (let dst = (ucast v1 - ucast v2 :: u32);
          s1 = flag_szp16 s (ucast dst);
          s2 = s1\<lparr>cf := (if dst AND 0xFFFF0000 \<noteq> 0 then 1 else 0)\<rparr>;
          s3 = s2\<lparr>ofl := (if (dst XOR ucast v1) AND (ucast v1 XOR ucast v2) AND 0x8000 \<noteq> 0
                          then 1 else 0)\<rparr>
      in s3\<lparr>af := (if (ucast v1 XOR ucast v2 XOR dst) AND 0x10 \<noteq> 0 then 1 else 0)\<rparr>)"

text \<open>\<^verbatim>\<open>flag_sbb8\<close>: \<^verbatim>\<open>v2 += v3\<close> is an assignment to the \<^verbatim>\<open>uint8_t\<close> parameter, so
  the sum of source and carry is cut to 8 bits before the operands are widened.\<close>

definition flag_sbb8 :: "cpu \<Rightarrow> u8 \<Rightarrow> u8 \<Rightarrow> u8 \<Rightarrow> cpu" where
  "flag_sbb8 s v1 v2 v3 =
     (let v2' = v2 + v3;
          dst = (ucast v1 - ucast v2' :: u16);
          s1 = flag_szp8 s (ucast dst);
          s2 = s1\<lparr>cf := (if dst AND 0xFF00 \<noteq> 0 then 1 else 0)\<rparr>;
          s3 = s2\<lparr>ofl := (if (dst XOR ucast v1) AND (ucast v1 XOR ucast v2') AND 0x80 \<noteq> 0
                          then 1 else 0)\<rparr>
      in s3\<lparr>af := (if (ucast v1 XOR ucast v2' XOR dst) AND 0x10 \<noteq> 0 then 1 else 0)\<rparr>)"

definition flag_sbb16 :: "cpu \<Rightarrow> u16 \<Rightarrow> u16 \<Rightarrow> u16 \<Rightarrow> cpu" where
  "flag_sbb16 s v1 v2 v3 =
     (let v2' = v2 + v3;
          dst = (ucast v1 - ucast v2' :: u32);
          s1 = flag_szp16 s (ucast dst);
          s2 = s1\<lparr>cf := (if dst AND 0xFFFF0000 \<noteq> 0 then 1 else 0)\<rparr>;
          s3 = s2\<lparr>ofl := (if (dst XOR ucast v1) AND (ucast v1 XOR ucast v2') AND 0x8000 \<noteq> 0
                          then 1 else 0)\<rparr>
      in s3\<lparr>af := (if (ucast v1 XOR ucast v2' XOR dst) AND 0x10 \<noteq> 0 then 1 else 0)\<rparr>)"

definition op_add16 :: "cpu \<Rightarrow> cpu" where
  "op_add16 s = flag_add16 (s\<lparr>res16 := oper1 s + oper2 s\<rparr>) (oper1 s) (oper2 s)"

definition op_sub8 :: "cpu \<Rightarrow> cpu" where
  "op_sub8 s = flag_sub8 (s\<lparr>res8 := oper1b s - oper2b s\<rparr>) (oper1b s) (oper2b s)"

definition op_sub16 :: "cpu \<Rightarrow> cpu" where
  "op_sub16 s = flag_sub16 (s\<lparr>res16 := oper1 s - oper2 s\<rparr>) (oper1 s) (oper2 s)"

definition op_sbb8 :: "cpu \<Rightarrow> cpu" where
  "op_sbb8 s = flag_sbb8 (s\<lparr>res8 := oper1b s - (oper2b s + cf s)\<rparr>) (oper1b s) (oper2b s) (cf s)"

definition op_sbb16 :: "cpu \<Rightarrow> cpu" where
  "op_sbb16 s =
     flag_sbb16 (s\<lparr>res16 := oper1 s - (oper2 s + ucast (cf s))\<rparr>) (oper1 s) (oper2 s) (ucast (cf s))"


section \<open>Physical memory\<close>

text \<open>
  Modelled from the spec: \<^verbatim>\<open>cpu_read\<close> and \<^verbatim>\<open>cpu_write\<close> are not among the sources.
  The physical memory bus is a byte store addressed by the physical address the core
  forms (\<^verbatim>\<open>read_byte(addr) \<rightarrow> u8\<close>, \<^verbatim>\<open>write_byte(addr, u8)\<close>); the address is used as
  formed, and a read has no effect on the state.
\<close>

definition cpu_read :: "cpu \<Rightarrow> u32 \<Rightarrow> u8" where
  "cpu_read s a = mem s a"

definition cpu_write :: "cpu \<Rightarrow> u32 \<Rightarrow> u8 \<Rightarrow> cpu" where
  "cpu_write s a v = s\<lparr>mem := (mem s)(a := v)\<rparr>"

definition cpu_writew :: "cpu \<Rightarrow> u32 \<Rightarrow> u16 \<Rightarrow> cpu" where
  "cpu_writew s addr32 v =
     cpu_write (cpu_write s addr32 (ucast v)) (addr32 + 1) (ucast (drop_bit 8 v))"

definition cpu_readw :: "cpu \<Rightarrow> u32 \<Rightarrow> u16" where
  "cpu_readw s addr32 = ucast (cpu_read s addr32) OR push_bit 8 (ucast (cpu_read s (addr32 + 1)))"

text \<open>\<^verbatim>\<open>read_24bit_base\<close> and the inline three-byte reads of a descriptor base.\<close>

definition read_24bit_base :: "cpu \<Rightarrow> u32 \<Rightarrow> u32" where
  "read_24bit_base s addr =
     ucast (cpu_read s addr) OR push_bit 8 (ucast (cpu_read s (addr + 1)))
       OR push_bit 16 (ucast (cpu_read s (addr + 2)))"

section \<open>Register access\<close>

text \<open>\<^verbatim>\<open>regs.byteregs[i]\<close> is byte \<open>i\<close> of the storage of \<^verbatim>\<open>regs.wordregs\<close>: byte \<open>2k\<close>
  is the low half and byte \<open>2k+1\<close> the high half of word register \<open>k\<close>.\<close>

definition byteregs :: "cpu \<Rightarrow> u8 \<Rightarrow> u8" where
  "byteregs s i =
     (if even (unat i) then ucast (wordregs s (drop_bit 1 i))
      else ucast (drop_bit 8 (wordregs s (drop_bit 1 i))))"

definition set_bytereg :: "cpu \<Rightarrow> u8 \<Rightarrow> u8 \<Rightarrow> cpu" where
  "set_bytereg s i v =
     (let k = drop_bit 1 i; w = wordregs s k
      in if even (unat i)
         then s\<lparr>wordregs := (wordregs s)(k := (w AND 0xFF00) OR ucast v)\<rparr>
         else s\<lparr>wordregs := (wordregs s)(k := (w AND 0x00FF) OR push_bit 8 (ucast v))\<rparr>)"

definition getreg16 :: "cpu \<Rightarrow> u8 \<Rightarrow> u16" where
  "getreg16 s regid = wordregs s regid"

definition putreg16 :: "cpu \<Rightarrow> u8 \<Rightarrow> u16 \<Rightarrow> cpu" where
  "putreg16 s regid writeval = s\<lparr>wordregs := (wordregs s)(regid := writeval)\<rparr>"

section \<open>Effective address and segment translation\<close>

text \<open>The \<^verbatim>\<open>switch\<close> of \<^verbatim>\<open>getea\<close> that forms \<^verbatim>\<open>tempea\<close>.\<close>

definition getea_tempea :: "cpu \<Rightarrow> u8 \<Rightarrow> u32" where
  "getea_tempea s rmval =
     (let r = (\<lambda>i. (ucast (wordregs s i) :: u32));
          d = (ucast (disp16 s) :: u32)
      in if mode s = 0 then
               (if rmval = 0 then r regbx + r regsi
                else if rmval = 1 then r regbx + r regdi
                else if rmval = 2 then r regbp + r regsi
                else if rmval = 3 then r regbp + r regdi
                else if rmval = 4 then r regsi
                else if rmval = 5 then r regdi
                else if rmval = 6 then d
                else if rmval = 7 then r regbx
                else 0)
             else if mode s = 1 \<or> mode s = 2 then
               (if rmval = 0 then r regbx + r regsi + d
                else if rmval = 1 then r regbx + r regdi + d
                else if rmval = 2 then r regbp + r regsi + d
                else if rmval = 3 then r regbp + r regdi + d
                else if rmval = 4 then r regsi + d
                else if rmval = 5 then r regdi + d
                else if rmval = 6 then r regbp + d
                else if rmval = 7 then r regbx + d
                else 0)
             else 0)"

definition getea :: "cpu \<Rightarrow> u8 \<Rightarrow> cpu" where
  "getea s rmval =
     (let tempea = getea_tempea s rmval;
          offset = (ucast (tempea AND 0xFFFF) :: u16)
      in if protected_mode s then
           (let seg_reg_index =
                  (if useseg s = segregs s regss then Some regss
                   else if useseg s = segregs s regds then Some regds
                   else if useseg s = segregs s reges then Some reges
                   else if useseg s = segregs s regcs then Some regcs
                   else None)
            in case seg_reg_index of
                 Some i \<Rightarrow>
                   if valid (segcache s i) then s\<lparr>ea := base (segcache s i) + ucast offset\<rparr>
                   else s\<lparr>ea := 0\<rparr>
               | None \<Rightarrow> s\<lparr>ea := 0\<rparr>)
         else
           (let addr = (push_bit 4 (ucast (useseg s)) + ucast offset :: u32);
                addr = (if a20_enabled s = 0 then addr AND 0x000FFFFF else addr)
            in s\<lparr>ea := addr\<rparr>))"

text \<open>\<^verbatim>\<open>translate_address_safe\<close> returns the address and the fault indication.\<close>

definition translate_address_safe :: "cpu \<Rightarrow> u16 \<Rightarrow> u16 \<Rightarrow> u32 \<times> bool" where
  "translate_address_safe s seg off =
     (if \<not> protected_mode s then (push_bit 4 (ucast seg) + ucast off, False)
      else
        (let cache =
               (if seg = segregs s regcs then Some (segcache s regcs)
                else if seg = segregs s regds then Some (segcache s regds)
                else if seg = segregs s reges then Some (segcache s reges)
                else if seg = segregs s regss then Some (segcache s regss)
                else None)
         in case cache of
              None \<Rightarrow> (0xFFFFFFFF, True)
            | Some c \<Rightarrow>
                if \<not> valid c then (0xFFFFFFFF, True)
                else if off > limit c then (0xFFFFFFFF, True)
                else (base c + ucast off, False)))"

text \<open>
  The interrupt dispatcher is reached from the translator, from the descriptor loader
  and from itself.  The functions that raise an interrupt take the dispatcher as their
  first argument; \<open>None\<close> is a dispatcher that has not returned.
\<close>

type_synonym intcall = "cpu \<Rightarrow> u8 \<Rightarrow> cpu option"

definition get_real_address :: "intcall \<Rightarrow> cpu \<Rightarrow> u16 \<Rightarrow> u16 \<Rightarrow> (u32 \<times> cpu) option" where
  "get_real_address ic s seg off =
     (if protected_mode s then
        (case translate_address_safe s seg off of
           (addr, fault) \<Rightarrow>
             if fault then do { s' \<leftarrow> ic s 13; Some (0, s') }
             else Some (addr, s))
      else
        (let addr = (push_bit 4 (ucast seg) + ucast off :: u32)
         in if a20_enabled s = 0 then Some (addr AND 0x000FFFFF, s) else Some (addr, s)))"

text \<open>
  Modelled from the spec: the access macros \<^verbatim>\<open>getmem8\<close>, \<^verbatim>\<open>getmem16\<close>, \<^verbatim>\<open>putmem8\<close>,
  \<^verbatim>\<open>putmem16\<close> and \<^verbatim>\<open>StepIP\<close> of \<^verbatim>\<open>cpu.h\<close> are not among the sources.  A
  segment:offset access turns the pair into a physical address through the segment
  translator (\<^verbatim>\<open>get_real_address\<close>) and then uses the memory bus; a word access is two
  byte accesses, little endian, at the translated address.
\<close>

definition getmem8 :: "intcall \<Rightarrow> cpu \<Rightarrow> u16 \<Rightarrow> u16 \<Rightarrow> (u8 \<times> cpu) option" where
  "getmem8 ic s seg off = do { (a, s') \<leftarrow> get_real_address ic s seg off; Some (cpu_read s' a, s') }"

definition getmem16 :: "intcall \<Rightarrow> cpu \<Rightarrow> u16 \<Rightarrow> u16 \<Rightarrow> (u16 \<times> cpu) option" where
  "getmem16 ic s seg off = do { (a, s') \<leftarrow> get_real_address ic s seg off; Some (cpu_readw s' a, s') }"

definition putmem8 :: "intcall \<Rightarrow> cpu \<Rightarrow> u16 \<Rightarrow> u16 \<Rightarrow> u8 \<Rightarrow> cpu option" where
  "putmem8 ic s seg off v = do { (a, s') \<leftarrow> get_real_address ic s seg off; Some (cpu_write s' a v) }"

definition putmem16 :: "intcall \<Rightarrow> cpu \<Rightarrow> u16 \<Rightarrow> u16 \<Rightarrow> u16 \<Rightarrow> cpu option" where
  "putmem16 ic s seg off v = do { (a, s') \<leftarrow> get_real_address ic s seg off; Some (cpu_writew s' a v) }"

definition StepIP :: "cpu \<Rightarrow> u16 \<Rightarrow> cpu" where
  "StepIP s n = s\<lparr>ip := ip s + n\<rparr>"

definition push :: "intcall \<Rightarrow> cpu \<Rightarrow> u16 \<Rightarrow> cpu option" where
  "push ic s pushval =
     (let s1 = s\<lparr>wordregs := (wordregs s)(regsp := wordregs s regsp - 2)\<rparr>
      in putmem16 ic s1 (segregs s1 regss) (wordregs s1 regsp) pushval)"

definition pop :: "intcall \<Rightarrow> cpu \<Rightarrow> (u16 \<times> cpu) option" where
  "pop ic s =
     do { (tempval, s1) \<leftarrow> getmem16 ic s (segregs s regss) (wordregs s regsp);
          Some (tempval, s1\<lparr>wordregs := (wordregs s1)(regsp := wordregs s1 regsp + 2)\<rparr>) }"

section \<open>ModR/M operand access\<close>

definition readrm16 :: "cpu \<Rightarrow> u8 \<Rightarrow> u16 \<times> cpu" where
  "readrm16 s rmval =
     (if mode s < 3 then
        (let s1 = getea s rmval
         in (ucast (cpu_read s1 (ea s1)) OR push_bit 8 (ucast (cpu_read s1 (ea s1 + 1))), s1))
      else (getreg16 s rmval, s))"

definition writerm16 :: "cpu \<Rightarrow> u8 \<Rightarrow> u16 \<Rightarrow> cpu" where
  "writerm16 s rmval v =
     (if mode s < 3 then
        (let s1 = getea s rmval;
             s2 = cpu_write s1 (ea s1) (ucast (v AND 0xFF))
         in cpu_write s2 (ea s2 + 1) (ucast (drop_bit 8 v)))
      else putreg16 s rmval v)"

text \<open>Opcode \<^verbatim>\<open>0x01\<close> (ADD Ev Gv), the statements that follow \<^verbatim>\<open>modregrm(cpu)\<close>.\<close>

definition exec_add_ev_gv :: "cpu \<Rightarrow> cpu" where
  "exec_add_ev_gv s =
     (let (v, s1) = readrm16 s (rm s);
          s2 = s1\<lparr>oper1 := v\<rparr>;
          s3 = s2\<lparr>oper2 := getreg16 s2 (reg s2)\<rparr>;
          s4 = op_add16 s3
      in writerm16 s4 (rm s4) (res16 s4))"

section \<open>FPU register stack\<close>

abbreviation (input) kFpuTagValid :: u32 where "kFpuTagValid \<equiv> 0"
abbreviation (input) kFpuTagEmpty :: u32 where "kFpuTagEmpty \<equiv> 3"
abbreviation (input) kFpuSwIe :: u16 where "kFpuSwIe \<equiv> 0x0001"
abbreviation (input) kFpuSwSf :: u16 where "kFpuSwSf \<equiv> 0x0040"
abbreviation (input) kFpuSwC1 :: u16 where "kFpuSwC1 \<equiv> 0x0200"
abbreviation (input) kFpuSwSp :: u16 where "kFpuSwSp \<equiv> 0x3800"

text \<open>The stack index arithmetic is done in 32 bits (\<^verbatim>\<open>unsigned\<close>, \<^verbatim>\<open>int\<close>); the logical
  index \<open>-1\<close> is \<^verbatim>\<open>0xFFFFFFFF\<close>.\<close>

definition fpu_top :: "cpu \<Rightarrow> u32" where
  "fpu_top s = ucast (drop_bit 11 (sw (fpu s) AND kFpuSwSp))"

definition FpuSt :: "cpu \<Rightarrow> u32 \<Rightarrow> nat" where
  "FpuSt s i = unat ((i + fpu_top s) AND 7)"

definition FpuGetTag :: "cpu \<Rightarrow> u32 \<Rightarrow> u32" where
  "FpuGetTag s i =
     (let t = (ucast (tw (fpu s)) :: u32);
          i = i + fpu_top s;
          i = i AND 7;
          i = i * 2;
          t = t AND push_bit (unat i) 3
      in drop_bit (unat i) t)"

definition FpuSetTag :: "cpu \<Rightarrow> u32 \<Rightarrow> u32 \<Rightarrow> cpu" where
  "FpuSetTag s i t =
     (let i = i + fpu_top s;
          t = t AND 3;
          i = i AND 7;
          i = i * 2;
          tw1 = tw (fpu s) AND ucast (NOT (push_bit (unat i) (3 :: u32)));
          tw2 = tw1 OR ucast (push_bit (unat i) t)
      in s\<lparr>fpu := (fpu s)\<lparr>tw := tw2\<rparr>\<rparr>)"

definition OnFpuStackOverflow :: "cpu \<Rightarrow> cpu" where
  "OnFpuStackOverflow s = s\<lparr>fpu := (fpu s)\<lparr>sw := sw (fpu s) OR kFpuSwIe OR kFpuSwC1 OR kFpuSwSf\<rparr>\<rparr>"

text \<open>\<^verbatim>\<open>-NAN\<close> as a bit pattern: the quiet NaN with the sign bit set.\<close>

definition neg_nan :: u64 where
  "neg_nan = 0xFFF8000000000000"

definition OnFpuStackUnderflow :: "cpu \<Rightarrow> u64 \<times> cpu" where
  "OnFpuStackUnderflow s =
     (let s1 = s\<lparr>fpu := (fpu s)\<lparr>sw := sw (fpu s) OR kFpuSwIe OR kFpuSwSf\<rparr>\<rparr>;
          s2 = s1\<lparr>fpu := (fpu s1)\<lparr>sw := sw (fpu s1) AND NOT kFpuSwC1\<rparr>\<rparr>
      in (neg_nan, s2))"

definition FpuPush :: "cpu \<Rightarrow> u64 \<Rightarrow> cpu" where
  "FpuPush s x =
     (let s1 = (if FpuGetTag s (- 1) \<noteq> kFpuTagEmpty then OnFpuStackOverflow s else s);
          s2 = s1\<lparr>fpu := (fpu s1)\<lparr>sw := (sw (fpu s1) AND NOT kFpuSwSp)
                                         OR ((sw (fpu s1) - push_bit 11 1) AND kFpuSwSp)\<rparr>\<rparr>;
          s3 = s2\<lparr>fpu := (fpu s2)\<lparr>st := (st (fpu s2))(FpuSt s2 0 := x)\<rparr>\<rparr>
      in FpuSetTag s3 0 kFpuTagValid)"

definition FpuPop :: "cpu \<Rightarrow> u64 \<times> cpu" where
  "FpuPop s =
     (let (x, s1) =
            (if FpuGetTag s 0 \<noteq> kFpuTagEmpty
             then (st (fpu s) (FpuSt s 0), FpuSetTag s 0 kFpuTagEmpty)
             else OnFpuStackUnderflow s)
      in (x, s1\<lparr>fpu := (fpu s1)\<lparr>sw := (sw (fpu s1) AND NOT kFpuSwSp)
                                        OR ((sw (fpu s1) + push_bit 11 1) AND kFpuSwSp)\<rparr>\<rparr>))"

text \<open>A finite \<^verbatim>\<open>double\<close>: the exponent field (bits 52 to 62) is not all ones.\<close>

definition fp_finite :: "u64 \<Rightarrow> bool" where
  "fp_finite x = (drop_bit 52 x AND 0x7FF \<noteq> 0x7FF)"


section \<open>Reset\<close>

definition OpFinit :: "cpu \<Rightarrow> cpu" where
  "OpFinit s = s\<lparr>fpu := (fpu s)\<lparr>cw := 0x037F, sw := 0, tw := 0xFFFF\<rparr>\<rparr>"

definition zero_cache :: descriptor_cache where
  "zero_cache = \<lparr>base = 0, limit = 0, access = 0, valid = False\<rparr>"

definition zero_tss_cache :: tss_cache where
  "zero_tss_cache = \<lparr>base = 0, limit = 0, access = 0, valid = False, sp0 = 0, ss0 = 0\<rparr>"

definition cpu_reset :: "cpu \<Rightarrow> cpu" where
  "cpu_reset s =
     (let s1 = s\<lparr>int_callback := (\<lambda>i. None),
                 wordregs := (\<lambda>i. 0),
                 segcache := (\<lambda>r. zero_cache),
                 ldtr_cache := zero_cache,
                 tr_cache := zero_tss_cache,
                 msw := 0xFFF0,
                 gdtr := \<lparr>dtr_base = 0, dtr_limit = 0xFFFF\<rparr>,
                 idtr := \<lparr>dtr_base = 0, dtr_limit = 0x03FF\<rparr>,
                 handling_fault := False,
                 ldtr := 0,
                 tr := 0,
                 protected_mode := False,
                 a20_enabled := 0\<rparr>;
          s2 = OpFinit s1
      in s2\<lparr>segregs := (segregs s2)(regcs := 0xF000),
            ip := 0xFFF0,
            hltstate := 0,
            trap_toggle := 0\<rparr>)"

section \<open>Descriptor tables\<close>

text \<open>\<^verbatim>\<open>get_descriptor_info\<close>: \<open>None\<close> is the return value 0, \<open>Some (base, limit, access)\<close>
  the return value 1 with the three output parameters.\<close>

definition get_descriptor_info :: "cpu \<Rightarrow> u16 \<Rightarrow> (u32 \<times> u16 \<times> u8) option" where
  "get_descriptor_info s selector =
     (if selector AND 0xFFFC = 0 then None
      else if selector AND 0x0004 \<noteq> 0 \<and> \<not> valid (ldtr_cache s) then None
      else
        (let (table_base, table_limit) =
               (if selector AND 0x0004 \<noteq> 0 then (base (ldtr_cache s), limit (ldtr_cache s))
                else (dtr_base (gdtr s), dtr_limit (gdtr s)));
             index = drop_bit 3 selector
         in if unat index * 8 + 7 > unat table_limit then None
            else
              (let addr = table_base + ucast index * 8
               in Some (read_24bit_base s (addr + 2), cpu_readw s addr, cpu_read s (addr + 5)))))"

text \<open>\<^verbatim>\<open>load_descriptor\<close>.  \<^verbatim>\<open>cache\<close> points into the state, so a write through it after
  a call of the dispatcher lands in the state the dispatcher left.\<close>

definition load_descriptor :: "intcall \<Rightarrow> cpu \<Rightarrow> segreg \<Rightarrow> u16 \<Rightarrow> cpu option" where
  "load_descriptor ic s seg_reg selector =
     (let cpl = segregs s regcs AND 3
      in if selector AND 0xFFFC = 0 then
           (if seg_reg = regss then ic s 13
            else Some (s\<lparr>segcache := (segcache s)(seg_reg := (segcache s seg_reg)\<lparr>valid := False\<rparr>),
                         segregs := (segregs s)(seg_reg := selector)\<rparr>))
         else if selector AND 0x0004 \<noteq> 0 \<and> \<not> valid (ldtr_cache s) then ic s 13
         else
           (let (table_base, table_limit) =
                  (if selector AND 0x0004 \<noteq> 0 then (base (ldtr_cache s), limit (ldtr_cache s))
                   else (dtr_base (gdtr s), dtr_limit (gdtr s)));
                index = drop_bit 3 selector
            in if unat index * 8 + 7 > unat table_limit then
                 do { s' \<leftarrow> ic s 13;
                      Some (s'\<lparr>segcache := (segcache s')(seg_reg := (segcache s' seg_reg)\<lparr>valid := False\<rparr>)\<rparr>) }
               else
                 (let addr = table_base + ucast index * 8;
                      acc = cpu_read s (addr + 5);
                      lim = cpu_readw s addr;
                      bas = read_24bit_base s (addr + 2);
                      rpl = selector AND 3;
                      dpl = (ucast (drop_bit 5 acc AND 3) :: u16);
                      loaded = (\<lambda>s. Some (s\<lparr>segcache := (segcache s)(seg_reg :=
                                   (segcache s seg_reg)\<lparr>limit := lim, base := bas, access := acc, valid := True\<rparr>),
                                 segregs := (segregs s)(seg_reg := selector)\<rparr>))
                  in if acc AND 0x80 = 0 then ic s 11
                     else if seg_reg = regss then
                       (let is_writable_data = (acc AND 0x08 = 0 \<and> acc AND 0x02 \<noteq> 0)
                        in if rpl \<noteq> cpl \<or> dpl \<noteq> cpl \<or> \<not> is_writable_data
                           then do { s' \<leftarrow> push ic s selector; ic s' 13 }
                           else loaded s)
                     else if seg_reg = regcs then
                       (if acc AND 0x08 = 0 then ic s 13
                        else if dpl > cpl then ic s 13
                        else loaded s)
                     else
                       (let is_data = (acc AND 0x08 = 0);
                            is_readable_code = (acc AND 0x0A = 0x0A)
                        in if \<not> is_data \<and> \<not> is_readable_code then ic s 13
                           else if cpl > dpl \<or> rpl > dpl then ic s 13
                           else loaded s))))"

section \<open>Interrupt dispatcher\<close>

text \<open>
  What the dispatcher uses and the sources do not hold: the macro \<^verbatim>\<open>makeflagsword\<close> of
  \<^verbatim>\<open>cpu.h\<close>, the macro \<^verbatim>\<open>modregrm\<close> of \<^verbatim>\<open>cpu.h\<close>, and the host functions behind the
  pointers of \<^verbatim>\<open>int_callback[]\<close>.  They are parameters of the model.  A function pointer
  is a number (\<open>None\<close> is \<^verbatim>\<open>NULL\<close>); \<open>host_callback f\<close> is the function it points to.
  The last parameter stands for the cases of the opcode \<^verbatim>\<open>switch\<close> of \<^verbatim>\<open>cpu_exec\<close> that
  are not written out below; it gets the state, \<^verbatim>\<open>firstip\<close> and \<^verbatim>\<open>loopcount\<close>.
\<close>

record env =
  makeflagsword :: "cpu \<Rightarrow> u16"
  host_callback :: "nat \<Rightarrow> cpu \<Rightarrow> u8 \<Rightarrow> cpu"
  modregrm :: "intcall \<Rightarrow> cpu \<Rightarrow> cpu option"
  other_opcodes :: "intcall \<Rightarrow> cpu \<Rightarrow> u16 \<Rightarrow> u32 \<Rightarrow> (cpu \<times> u32) option"

text \<open>The vectors that push an error code: \<^verbatim>\<open>intnum == 8 || (intnum >= 10 && intnum <= 13)\<close>.\<close>

definition has_error_code :: "u8 \<Rightarrow> bool" where
  "has_error_code intnum = (intnum = 8 \<or> (intnum \<ge> 10 \<and> intnum \<le> 13))"

text \<open>INT 15h, AH=87h: the block move of \<^verbatim>\<open>cpu_intcall\<close>.\<close>

definition int15_move :: "intcall \<Rightarrow> cpu \<Rightarrow> cpu option" where
  "int15_move ic s =
     (let count = wordregs s regcx;
          num_bytes = (ucast count * 2 :: u32)
      in do {
           (table_addr, s1) \<leftarrow> get_real_address ic s (segregs s reges) (wordregs s regsi);
           let source_base = read_24bit_base s1 (table_addr + 10);
           let dest_base = read_24bit_base s1 (table_addr + 18);
           let s2 = fold (\<lambda>i s. cpu_write s (dest_base + of_nat i) (cpu_read s (source_base + of_nat i)))
                      [0 ..< unat num_bytes] s1;
           let s3 = s2\<lparr>cf := 0\<rparr>;
           let s4 = set_bytereg s3 regah 0x00;
           Some (s4\<lparr>zf := 1\<rparr>)
         })"

text \<open>The real-mode branch of \<^verbatim>\<open>cpu_intcall\<close>.\<close>

definition intcall_real :: "env \<Rightarrow> intcall \<Rightarrow> cpu \<Rightarrow> u8 \<Rightarrow> cpu option" where
  "intcall_real E ic s intnum =
     (let flags_to_push = makeflagsword E s;
          s1 = s\<lparr>ifl := 0\<rparr>;
          s2 = s1\<lparr>tf := 0\<rparr>
      in do {
           s3 \<leftarrow> push ic s2 flags_to_push;
           s4 \<leftarrow> push ic s3 (segregs s3 regcs);
           s5 \<leftarrow> push ic s4 (ip s4);
           (new_cs, s6) \<leftarrow> getmem16 ic s5 0 (ucast intnum * 4 + 2);
           let s7 = s6\<lparr>segregs := (segregs s6)(regcs := new_cs)\<rparr>;
           (new_ip, s8) \<leftarrow> getmem16 ic s7 0 (ucast intnum * 4);
           let s9 = s8\<lparr>ip := new_ip\<rparr>;
           Some (s9\<lparr>handling_fault := False\<rparr>)
         })"

text \<open>The protected-mode branch of \<^verbatim>\<open>cpu_intcall\<close>.\<close>

definition intcall_protected :: "env \<Rightarrow> intcall \<Rightarrow> cpu \<Rightarrow> u8 \<Rightarrow> cpu option" where
  "intcall_protected E ic s intnum =
     (let gate_offset = (ucast intnum * 8 :: u32)
      in if gate_offset + 7 > ucast (dtr_limit (idtr s)) then ic s 8
         else
           (let gate_addr = dtr_base (idtr s) + gate_offset;
                acc = cpu_read s (gate_addr + 5)
            in if acc AND 0x80 = 0 then ic s 11
               else
                 (let new_ip = cpu_readw s gate_addr;
                      new_cs = cpu_readw s (gate_addr + 2);
                      gate_type = acc AND 0x1F
                  in case get_descriptor_info s new_cs of
                       None \<Rightarrow> ic s 13
                     | Some (target_desc_base, target_desc_limit, target_desc_access) \<Rightarrow>
                         (let target_dpl = drop_bit 5 target_desc_access AND 3;
                              cpl = (ucast (segregs s regcs AND 3) :: u8);
                              old_flags = makeflagsword E s;
                              old_cs = segregs s regcs;
                              old_ip = ip s;
                              finish = (\<lambda>s. do {
                                  s \<leftarrow> (if has_error_code intnum then push ic s 0 else Some s);
                                  s \<leftarrow> load_descriptor ic s regcs new_cs;
                                  let s = s\<lparr>segregs := (segregs s)(regcs := new_cs)\<rparr>;
                                  let s = s\<lparr>ip := new_ip\<rparr>;
                                  let s = s\<lparr>tf := 0\<rparr>;
                                  let s = (if gate_type = 0x06 then s\<lparr>ifl := 0\<rparr> else s);
                                  Some (s\<lparr>handling_fault := False\<rparr>) })
                          in if target_dpl < cpl then
                               (if \<not> valid (tr_cache s) then ic s 8
                                else
                                  (let new_sp = sp0 (tr_cache s);
                                       new_ss = ss0 (tr_cache s);
                                       old_ss = segregs s regss;
                                       old_sp = wordregs s regsp
                                   in do {
                                        s \<leftarrow> load_descriptor ic s regss new_ss;
                                        let s = s\<lparr>segregs := (segregs s)(regss := new_ss)\<rparr>;
                                        let s = s\<lparr>wordregs := (wordregs s)(regsp := new_sp)\<rparr>;
                                        s \<leftarrow> push ic s old_ss;
                                        s \<leftarrow> push ic s old_sp;
                                        s \<leftarrow> push ic s old_flags;
                                        s \<leftarrow> push ic s old_cs;
                                        s \<leftarrow> push ic s old_ip;
                                        finish s
                                      }))
                             else
                               do {
                                 s \<leftarrow> push ic s old_flags;
                                 s \<leftarrow> push ic s old_cs;
                                 s \<leftarrow> push ic s old_ip;
                                 finish s
                               }))))"

text \<open>
  \<^verbatim>\<open>cpu_intcall\<close>.  The first argument after the environment bounds the nesting of
  dispatcher calls: a call that would nest deeper has not returned (\<open>None\<close>).
\<close>

primrec cpu_intcall :: "env \<Rightarrow> nat \<Rightarrow> cpu \<Rightarrow> u8 \<Rightarrow> cpu option" where
  "cpu_intcall E 0 s intnum = None"
| "cpu_intcall E (Suc n) s intnum =
     (if handling_fault s then
        (if intnum = 8 then Some (cpu_reset s)
         else cpu_intcall E n s 8)
      else
        (let s1 = (if intnum = 8 \<or> intnum = 10 \<or> intnum = 11 \<or> intnum = 12 \<or> intnum = 13
                   then s\<lparr>handling_fault := True\<rparr> else s)
         in if intnum = 0x15 \<and> byteregs s1 regah = 0x88 then
              Some (s1\<lparr>wordregs := (wordregs s1)(regax := 15360), cf := 0\<rparr>)
            else if intnum = 0x15 \<and> byteregs s1 regah = 0x87 then
              int15_move (cpu_intcall E n) s1
            else
              (case int_callback s1 intnum of
                 Some f \<Rightarrow> Some ((host_callback E f s1 intnum)\<lparr>handling_fault := False\<rparr>)
               | None \<Rightarrow>
                   if protected_mode s1 then intcall_protected E (cpu_intcall E n) s1 intnum
                   else intcall_real E (cpu_intcall E n) s1 intnum)))"


section \<open>Fetch, prefixes and dispatch\<close>

text \<open>
  The prefix-collection loop of \<^verbatim>\<open>cpu_exec\<close> (\<^verbatim>\<open>while (!docontinue)\<close>).  The third
  argument is \<^verbatim>\<open>prefix_count\<close> on entry to the iteration.  The loop is left with
  \<^verbatim>\<open>cpu->opcode\<close> holding the last byte read.
\<close>

function prefix_loop :: "intcall \<Rightarrow> cpu \<Rightarrow> nat \<Rightarrow> cpu option" where
  "prefix_loop ic s prefix_count =
     (let s1 = s\<lparr>segregs := (segregs s)(regcs := segregs s regcs AND 0xFFFF)\<rparr>;
          s2 = s1\<lparr>ip := ip s1 AND 0xFFFF\<rparr>;
          s3 = s2\<lparr>savecs := segregs s2 regcs\<rparr>;
          s4 = s3\<lparr>saveip := ip s3\<rparr>
      in case getmem8 ic s4 (segregs s4 regcs) (ip s4) of
           None \<Rightarrow> None
         | Some (b, s5) \<Rightarrow>
             (let s6 = StepIP (s5\<lparr>opcode := b\<rparr>) 1
              in if prefix_count + 1 > 10 then ic s6 13
                 else if opcode s6 = 0x2E then
                   prefix_loop ic (s6\<lparr>useseg := segregs s6 regcs, segoverride := 1\<rparr>) (prefix_count + 1)
                 else if opcode s6 = 0x3E then
                   prefix_loop ic (s6\<lparr>useseg := segregs s6 regds, segoverride := 1\<rparr>) (prefix_count + 1)
                 else if opcode s6 = 0x26 then
                   prefix_loop ic (s6\<lparr>useseg := segregs s6 reges, segoverride := 1\<rparr>) (prefix_count + 1)
                 else if opcode s6 = 0x36 then
                   prefix_loop ic (s6\<lparr>useseg := segregs s6 regss, segoverride := 1\<rparr>) (prefix_count + 1)
                 else if opcode s6 = 0xF0 then
                   prefix_loop ic s6 (prefix_count + 1)
                 else if opcode s6 = 0xF3 then
                   prefix_loop ic (s6\<lparr>reptype := 1\<rparr>) (prefix_count + 1)
                 else if opcode s6 = 0xF2 then
                   prefix_loop ic (s6\<lparr>reptype := 2\<rparr>) (prefix_count + 1)
                 else Some s6))"
  by pat_completeness auto
termination
  by (relation "measure (\<lambda>(ic, s, prefix_count). 11 - prefix_count)") auto

text \<open>
  Opcode \<^verbatim>\<open>0xA4\<close> (MOVSB).  The two address translations are nested macro arguments,
  whose order C leaves open: the model translates the source first.  The result is the
  state and \<^verbatim>\<open>loopcount\<close>.
\<close>

definition exec_movsb :: "intcall \<Rightarrow> cpu \<Rightarrow> u16 \<Rightarrow> u32 \<Rightarrow> (cpu \<times> u32) option" where
  "exec_movsb ic s firstip loopcount =
     (if reptype s \<noteq> 0 \<and> wordregs s regcx = 0 then Some (s, loopcount)
      else do {
        (v, s1) \<leftarrow> getmem8 ic s (useseg s) (wordregs s regsi);
        s2 \<leftarrow> putmem8 ic s1 (segregs s1 reges) (wordregs s1 regdi) v;
        let s3 = (if df s2 \<noteq> 0
                  then (let t = s2\<lparr>wordregs := (wordregs s2)(regsi := wordregs s2 regsi - 1)\<rparr>
                        in t\<lparr>wordregs := (wordregs t)(regdi := wordregs t regdi - 1)\<rparr>)
                  else (let t = s2\<lparr>wordregs := (wordregs s2)(regsi := wordregs s2 regsi + 1)\<rparr>
                        in t\<lparr>wordregs := (wordregs t)(regdi := wordregs t regdi + 1)\<rparr>));
        let s4 = (if reptype s3 \<noteq> 0
                  then s3\<lparr>wordregs := (wordregs s3)(regcx := wordregs s3 regcx - 1)\<rparr>
                  else s3);
        let loopcount = loopcount + 1;
        if reptype s4 = 0 then Some (s4, loopcount)
        else Some (s4\<lparr>ip := firstip\<rparr>, loopcount)
      })"

text \<open>
  Opcode \<^verbatim>\<open>0xD7\<close> (XLAT).  The address is the \<^verbatim>\<open>int\<close> sum
  \<^verbatim>\<open>cpu->useseg * 16 + wordregs[regbx] + byteregs[regal]\<close>, handed to \<^verbatim>\<open>cpu_read\<close> as it
  is: no operand exceeds 16 bits, so the sum does not wrap in 32 bits.
\<close>

definition exec_xlat :: "cpu \<Rightarrow> cpu" where
  "exec_xlat s =
     set_bytereg s regal
       (cpu_read s (ucast (useseg s) * 16 + ucast (wordregs s regbx) + ucast (byteregs s regal)))"

text \<open>
  The opcode \<^verbatim>\<open>switch\<close> of \<^verbatim>\<open>cpu_exec\<close>.  Written out: \<^verbatim>\<open>0x01\<close>, \<^verbatim>\<open>0x90\<close>, \<^verbatim>\<open>0xA4\<close>,
  \<^verbatim>\<open>0xD7\<close> and the \<^verbatim>\<open>default\<close> label, which is reached by the twelve byte values that
  have no \<^verbatim>\<open>case\<close>: the seven prefix bytes, \<^verbatim>\<open>0x64\<close> to \<^verbatim>\<open>0x67\<close> and \<^verbatim>\<open>0xF1\<close>.
\<close>

definition exec_opcode :: "env \<Rightarrow> intcall \<Rightarrow> cpu \<Rightarrow> u16 \<Rightarrow> u32 \<Rightarrow> (cpu \<times> u32) option" where
  "exec_opcode E ic s firstip loopcount =
     (if opcode s = 0x01 then
        do { s1 \<leftarrow> modregrm E ic s; Some (exec_add_ev_gv s1, loopcount) }
      else if opcode s = 0x90 then Some (s, loopcount)
      else if opcode s = 0xA4 then exec_movsb ic s firstip loopcount
      else if opcode s = 0xD7 then Some (exec_xlat s, loopcount)
      else if opcode s \<in> {0x26, 0x2E, 0x36, 0x3E, 0x64, 0x65, 0x66, 0x67, 0xF0, 0xF1, 0xF2, 0xF3} then
        do { s1 \<leftarrow> ic s 6; Some (s1, loopcount) }
      else other_opcodes E ic s firstip loopcount)"

text \<open>
  One iteration of the \<^verbatim>\<open>for\<close> loop of \<^verbatim>\<open>cpu_exec\<close>, without the loop's own
  \<^verbatim>\<open>loopcount++\<close>.
\<close>

definition cpu_exec_step :: "env \<Rightarrow> nat \<Rightarrow> cpu \<Rightarrow> u32 \<Rightarrow> (cpu \<times> u32) option" where
  "cpu_exec_step E n s loopcount =
     do {
       s1 \<leftarrow> (if trap_toggle s \<noteq> 0 then cpu_intcall E n s 1 else Some s);
       let s2 = (if tf s1 \<noteq> 0 then s1\<lparr>trap_toggle := 1\<rparr> else s1\<lparr>trap_toggle := 0\<rparr>);
       if hltstate s2 \<noteq> 0 then Some (s2, loopcount)
       else do {
         let s3 = s2\<lparr>reptype := 0\<rparr>;
         let s4 = s3\<lparr>segoverride := 0\<rparr>;
         let s5 = s4\<lparr>useseg := segregs s4 regds\<rparr>;
         let firstip = ip s5;
         s6 \<leftarrow> prefix_loop (cpu_intcall E n) s5 0;
         let s7 = s6\<lparr>totalexec := totalexec s6 + 1\<rparr>;
         exec_opcode E (cpu_intcall E n) s7 firstip loopcount
       }
     }"

section \<open>Address translation without a fault\<close>

text \<open>\<^verbatim>\<open>get_real_address\<close> raises vector 13 exactly when the processor is in protected
  mode and \<^verbatim>\<open>translate_address_safe\<close> reports a fault.\<close>

definition translation_faults :: "cpu \<Rightarrow> u16 \<Rightarrow> u16 \<Rightarrow> bool" where
  "translation_faults s seg off = (protected_mode s \<and> snd (translate_address_safe s seg off))"

text \<open>The physical address of a real-mode segment:offset pair, A20 gate applied.\<close>

definition real_address :: "cpu \<Rightarrow> u16 \<Rightarrow> u16 \<Rightarrow> u32" where
  "real_address s seg off =
     (let addr = (push_bit 4 (ucast seg) + ucast off :: u32)
      in if a20_enabled s = 0 then addr AND 0x000FFFFF else addr)"

text \<open>The address \<^verbatim>\<open>get_real_address\<close> returns when it raises nothing.\<close>

definition translated_address :: "cpu \<Rightarrow> u16 \<Rightarrow> u16 \<Rightarrow> u32" where
  "translated_address s seg off =
     (if protected_mode s then fst (translate_address_safe s seg off) else real_address s seg off)"

text \<open>The little-endian word at an address of a memory content.\<close>

definition mem_readw :: "(u32 \<Rightarrow> u8) \<Rightarrow> u32 \<Rightarrow> u16" where
  "mem_readw m a = ucast (m a) OR push_bit 8 (ucast (m (a + 1)))"

section \<open>Instruction fetch without a fault\<close>

text \<open>The bytes the prefix loop of \<^verbatim>\<open>cpu_exec\<close> consumes without leaving the loop.\<close>

definition is_prefix :: "u8 \<Rightarrow> bool" where
  "is_prefix b = (b = 0x2E \<or> b = 0x3E \<or> b = 0x26 \<or> b = 0x36 \<or> b = 0xF0 \<or> b = 0xF3 \<or> b = 0xF2)"

text \<open>What the \<^verbatim>\<open>switch\<close> of the prefix loop does for a prefix byte.\<close>

definition prefix_effect :: "u8 \<Rightarrow> cpu \<Rightarrow> cpu" where
  "prefix_effect b s =
     (if b = 0x2E then s\<lparr>useseg := segregs s regcs, segoverride := 1\<rparr>
      else if b = 0x3E then s\<lparr>useseg := segregs s regds, segoverride := 1\<rparr>
      else if b = 0x26 then s\<lparr>useseg := segregs s reges, segoverride := 1\<rparr>
      else if b = 0x36 then s\<lparr>useseg := segregs s regss, segoverride := 1\<rparr>
      else if b = 0xF3 then s\<lparr>reptype := 1\<rparr>
      else if b = 0xF2 then s\<lparr>reptype := 2\<rparr>
      else s)"

text \<open>The \<open>i\<close>-th byte at CS:IP as the fetch reads it, and whether its fetch raises
  vector 13.\<close>

definition fetch_byte :: "cpu \<Rightarrow> nat \<Rightarrow> u8" where
  "fetch_byte s i = mem s (translated_address s (segregs s regcs) (ip s + of_nat i))"

definition fetch_faults :: "cpu \<Rightarrow> nat \<Rightarrow> bool" where
  "fetch_faults s i = translation_faults s (segregs s regcs) (ip s + of_nat i)"

definition prefix_bytes :: "cpu \<Rightarrow> nat \<Rightarrow> u8 list" where
  "prefix_bytes s k = map (fetch_byte s) [0 ..< k]"

text \<open>The instruction at CS:IP is MOVSB behind \<open>k\<close> prefix bytes, at most nine, and the
  fetch of its \<open>k + 1\<close> bytes raises nothing.\<close>

definition movsb_fetched :: "cpu \<Rightarrow> nat \<Rightarrow> bool" where
  "movsb_fetched s k =
     (k \<le> 9 \<and> list_all is_prefix (prefix_bytes s k) \<and> fetch_byte s k = 0xA4 \<and>
      list_all (\<lambda>i. \<not> fetch_faults s i) [0 ..< Suc k])"

text \<open>The state in which the opcode \<^verbatim>\<open>switch\<close> is entered when the instruction at CS:IP
  has \<open>k\<close> prefix bytes and its fetch raises nothing: the latches as the prefixes set
  them, one after the other, starting from the values the iteration gives them.\<close>

definition after_fetch :: "cpu \<Rightarrow> nat \<Rightarrow> cpu" where
  "after_fetch s k =
     (let t = fold prefix_effect (prefix_bytes s k)
                (s\<lparr>reptype := 0, segoverride := 0, useseg := segregs s regds\<rparr>)
      in s\<lparr>trap_toggle := (if tf s \<noteq> 0 then 1 else 0),
           reptype := reptype t, segoverride := segoverride t, useseg := useseg t,
           savecs := segregs s regcs, saveip := ip s + of_nat k,
           opcode := fetch_byte s k, ip := ip s + of_nat k + 1,
           totalexec := totalexec s + 1\<rparr>)"

section \<open>The stack segment across the delivery of a vector\<close>



section \<open>Concrete states\<close>

text \<open>A state with every field zero, from which the concrete inputs below are built.\<close>

definition cpu_zero :: cpu where
  "cpu_zero =
     \<lparr>wordregs = (\<lambda>i. 0), segregs = (\<lambda>r. 0), segcache = (\<lambda>r. zero_cache),
      ldtr_cache = zero_cache, tr_cache = zero_tss_cache,
      gdtr = \<lparr>dtr_base = 0, dtr_limit = 0\<rparr>, idtr = \<lparr>dtr_base = 0, dtr_limit = 0\<rparr>,
      msw = 0, ldtr = 0, tr = 0, protected_mode = False, handling_fault = False,
      int_callback = (\<lambda>i. None), ip = 0, savecs = 0, saveip = 0, useseg = 0,
      cf = 0, pf = 0, af = 0, zf = 0, sf = 0, tf = 0, ifl = 0, df = 0, ofl = 0,
      hltstate = 0, trap_toggle = 0, reptype = 0, segoverride = 0, opcode = 0,
      mode = 0, reg = 0, rm = 0, disp16 = 0, oper1 = 0, oper2 = 0, res16 = 0,
      oper1b = 0, oper2b = 0, res8 = 0, ea = 0, totalexec = 0,
      fpu = \<lparr>st = (\<lambda>i. 0), cw = 0, sw = 0, tw = 0\<rparr>,
      mem = (\<lambda>a. 0), a20_enabled = 0\<rparr>"

text \<open>An environment for the concrete inputs: the flag word in the 8086 layout, no host
  functions, and no further opcodes.\<close>

definition env0 :: env where
  "env0 =
     \<lparr>makeflagsword = (\<lambda>s. 2 OR ucast (cf s) OR push_bit 2 (ucast (pf s)) OR push_bit 4 (ucast (af s))
                           OR push_bit 6 (ucast (zf s)) OR push_bit 7 (ucast (sf s))
                           OR push_bit 8 (ucast (tf s)) OR push_bit 9 (ucast (ifl s))
                           OR push_bit 10 (ucast (df s)) OR push_bit 11 (ucast (ofl s))),
      host_callback = (\<lambda>f s i. s),
      modregrm = (\<lambda>ic s. Some s),
      other_opcodes = (\<lambda>ic s firstip loopcount. Some (s, loopcount))\<rparr>"



text \<open>The input of the ADD AX,BX scenario.\<close>

definition add_ax_bx_input :: cpu where
  "add_ax_bx_input =
     cpu_zero\<lparr>mode := 3, reg := regbx, rm := regax,
               wordregs := (wordregs cpu_zero)(regax := 0x7FFF, regbx := 0x0001)\<rparr>"

text \<open>A real-mode state for the delivery of vector 0x21: SS:SP = 0000:0100,
  CS:IP = 0300:0042, IF set, and the vector table entry 0x21 holding 5678:1234.\<close>

definition int21_input :: cpu where
  "int21_input =
     cpu_zero\<lparr>wordregs := (wordregs cpu_zero)(regsp := 0x0100),
               segregs := (segregs cpu_zero)(regcs := 0x0300),
               ip := 0x0042, ifl := 1,
               mem := (mem cpu_zero)(0x84 := 0x34, 0x85 := 0x12, 0x86 := 0x78, 0x87 := 0x56)\<rparr>"

text \<open>
  The state the INT 15h, AH=87h intercept leaves when it raises nothing: \<open>2 * CX\<close> bytes
  copied one by one, in ascending order, from the 24-bit source base to the 24-bit
  destination base of the table at ES:SI, then CF = 0, AH = 0 and ZF = 1.
\<close>

definition int15_move_result :: "cpu \<Rightarrow> cpu" where
  "int15_move_result s =
     (let ta = translated_address s (segregs s reges) (wordregs s regsi);
          source_base = read_24bit_base s (ta + 10);
          dest_base = read_24bit_base s (ta + 18)
      in s\<lparr>mem := fold (\<lambda>i m. m(dest_base + of_nat i := m (source_base + of_nat i)))
                      [0 ..< 2 * unat (wordregs s regcx)] (mem s),
           cf := 0,
           wordregs := (wordregs s)(regax := wordregs s regax AND 0x00FF),
           zf := 1\<rparr>)"

text \<open>A protected-mode state in which ES:SI does not translate: every descriptor cache
  is invalid.  AH = 0x87, CX = 0, and the IDT limit is 0.\<close>

definition int15_fault_input :: cpu where
  "int15_fault_input =
     cpu_zero\<lparr>protected_mode := True, wordregs := (wordregs cpu_zero)(regax := 0x8700)\<rparr>"

text \<open>A real-mode state for the block move: AH = 0x87, CX = 1, ES:SI = 0000:0100, the
  table there naming the source base 0x000200 and the destination base 0x000300, and the
  bytes 0xAA, 0xBB at the source.\<close>

definition int15_move_input :: cpu where
  "int15_move_input =
     cpu_zero\<lparr>wordregs := (wordregs cpu_zero)(regax := 0x8700, regcx := 1, regsi := 0x0100),
               mem := (mem cpu_zero)(0x10B := 0x02, 0x113 := 0x03, 0x200 := 0xAA, 0x201 := 0xBB),
               a20_enabled := 1\<rparr>"

text \<open>Projections of the result of an instruction, for stating concrete outcomes.\<close>

definition result_si :: "(cpu \<times> u32) option \<Rightarrow> u16 option" where
  "result_si r = map_option (\<lambda>p. wordregs (fst p) regsi) r"

definition result_cs_ip_sp :: "(cpu \<times> u32) option \<Rightarrow> (u16 \<times> u16 \<times> u16) option" where
  "result_cs_ip_sp r = map_option (\<lambda>p. (segregs (fst p) regcs, ip (fst p), wordregs (fst p) regsp)) r"

text \<open>A real-mode state for REP MOVSB: the bytes \<^verbatim>\<open>F3 A4\<close> at CS:IP = 0000:0010,
  DS:SI = 0000:0200 holding 0xAA, ES:DI = 0000:0300, CX = 3, DF = 0.\<close>

definition movsb_input :: cpu where
  "movsb_input =
     cpu_zero\<lparr>wordregs := (wordregs cpu_zero)(regsi := 0x0200, regdi := 0x0300, regcx := 3),
               ip := 0x0010, a20_enabled := 1,
               mem := (mem cpu_zero)(0x10 := 0xF3, 0x11 := 0xA4, 0x200 := 0xAA)\<rparr>"

text \<open>A protected-mode state for MOVSB with a source that does not translate: CS = 0x08
  and SS = 0x10 with valid descriptor caches, DS = ES = 0 (null selectors, caches
  invalid), the byte \<^verbatim>\<open>A4\<close> at CS:IP = 0008:0100, SI = 5, DF = 0, and an IDT (base 0,
  limit 0x3FF) that holds no gate.\<close>

definition movsb_fault_input :: cpu where
  "movsb_fault_input =
     cpu_zero\<lparr>protected_mode := True,
               segregs := (segregs cpu_zero)(regcs := 0x08, regss := 0x10),
               segcache := (segcache cpu_zero)
                 (regcs := \<lparr>base = 0, limit = 0xFFFF, access = 0x9B, valid = True\<rparr>,
                  regss := \<lparr>base = 0x020000, limit = 0xFFFF, access = 0x93, valid = True\<rparr>),
               idtr := \<lparr>dtr_base = 0, dtr_limit = 0x03FF\<rparr>,
               wordregs := (wordregs cpu_zero)(regsi := 5, regsp := 0x0100),
               ip := 0x0100,
               mem := (mem cpu_zero)(0x100 := 0xA4)\<rparr>"

text \<open>Real-mode states with a run of LOCK prefixes at CS:IP = 0000:0000: ten prefixes and
  a NOP, and eleven prefixes.  SS:SP = 0000:0100; vector 13 is 5678:1234 and vector 6 is
  9ABC:4321.\<close>

definition vectors_6_13 :: "u32 \<Rightarrow> u8" where
  "vectors_6_13 =
     (\<lambda>a. 0)(0x18 := 0x21, 0x19 := 0x43, 0x1A := 0xBC, 0x1B := 0x9A,
             0x34 := 0x34, 0x35 := 0x12, 0x36 := 0x78, 0x37 := 0x56)"

definition ten_prefix_input :: cpu where
  "ten_prefix_input =
     cpu_zero\<lparr>wordregs := (wordregs cpu_zero)(regsp := 0x0100),
               mem := vectors_6_13(0 := 0xF0, 1 := 0xF0, 2 := 0xF0, 3 := 0xF0, 4 := 0xF0,
                                   5 := 0xF0, 6 := 0xF0, 7 := 0xF0, 8 := 0xF0, 9 := 0xF0,
                                   10 := 0x90)\<rparr>"

definition eleven_prefix_input :: cpu where
  "eleven_prefix_input =
     cpu_zero\<lparr>wordregs := (wordregs cpu_zero)(regsp := 0x0100),
               mem := vectors_6_13(0 := 0xF0, 1 := 0xF0, 2 := 0xF0, 3 := 0xF0, 4 := 0xF0,
                                   5 := 0xF0, 6 := 0xF0, 7 := 0xF0, 8 := 0xF0, 9 := 0xF0,
                                   10 := 0xF0, 11 := 0x90)\<rparr>"

text \<open>A real-mode state with REP, nine LOCK prefixes and MOVSB at CS:IP = 0000:0000:
  SS:SP = 0000:0100, DS:SI = 0000:0200, ES:DI = 0000:0300, CX = 3; vector 13 is
  5678:1234.\<close>

definition rep_ten_prefix_input :: cpu where
  "rep_ten_prefix_input =
     cpu_zero\<lparr>wordregs := (wordregs cpu_zero)(regsp := 0x0100, regsi := 0x0200, regdi := 0x0300,
                                                regcx := 3),
               mem := vectors_6_13(0 := 0xF3, 1 := 0xF0, 2 := 0xF0, 3 := 0xF0, 4 := 0xF0,
                                   5 := 0xF0, 6 := 0xF0, 7 := 0xF0, 8 := 0xF0, 9 := 0xF0,
                                   10 := 0xA4)\<rparr>"




text \<open>A real-mode state for XLAT with the A20 gate disabled: the byte \<^verbatim>\<open>D7\<close> at
  CS:IP = 0000:0100, DS = 0xFFFF, BX = 0x0010, AL = 0; physical address 0 holds 0xAA and
  physical address 0x100000 holds 0xBB.\<close>

definition xlat_input :: cpu where
  "xlat_input =
     cpu_zero\<lparr>segregs := (segregs cpu_zero)(regds := 0xFFFF),
               wordregs := (wordregs cpu_zero)(regbx := 0x0010),
               ip := 0x0100,
               mem := (mem cpu_zero)(0 := 0xAA, 0x100 := 0xD7, 0x100000 := 0xBB)\<rparr>"

text \<open>An FPU state after \<^verbatim>\<open>OpFinit\<close> (every slot empty, top = 0) and a finite value, 1.0.\<close>

definition fpu_init_input :: cpu where
  "fpu_init_input = OpFinit cpu_zero"

definition double_one :: u64 where
  "double_one = 0x3FF0000000000000"

section \<open>Auxiliary facts\<close>

lemma unat_lt2p: "unat (w :: 'a::len word) < 2 ^ LENGTH('a)"
  by (rule unsigned_less)

lemma unat_ucast_up:
  "LENGTH('a::len) \<le> LENGTH('b::len) \<Longrightarrow> unat (ucast (w :: 'a word) :: 'b word) = unat w"
proof -
  assume le: "LENGTH('a) \<le> LENGTH('b)"
  have "unat w < 2 ^ LENGTH('a)" by (rule unat_lt2p)
  also have "(2::nat) ^ LENGTH('a) \<le> 2 ^ LENGTH('b)" using le by simp
  finally have "take_bit LENGTH('b) (unat w) = unat w" by (simp add: take_bit_nat_eq_self)
  then show ?thesis by (simp add: unsigned_ucast_eq)
qed

lemma and_not_mask_zero: "(x :: 'a::len word) AND NOT (mask n) = 0 \<longleftrightarrow> x AND mask n = x"
  by (auto simp add: bit_eq_iff bit_simps)

lemma and_ff00: "(x :: 16 word) AND 0xFF00 = 0 \<longleftrightarrow> x < 0x100"
proof -
  have h: "(0xFF00 :: 16 word) = NOT (mask 8)"
    by (simp add: mask_eq_exp_minus_1)
  have "x AND NOT (mask 8) = 0 \<longleftrightarrow> x AND mask 8 = x"
    by (rule and_not_mask_zero)
  also have "\<dots> \<longleftrightarrow> x < 2 ^ 8"
    by (simp add: mask_eq_iff_w2p word_size)
  finally show ?thesis by (simp add: h)
qed

lemma and_ffff0000: "(x :: 32 word) AND 0xFFFF0000 = 0 \<longleftrightarrow> x < 0x10000"
proof -
  have h: "(0xFFFF0000 :: 32 word) = NOT (mask 16)"
    by (simp add: mask_eq_exp_minus_1)
  have "x AND NOT (mask 16) = 0 \<longleftrightarrow> x AND mask 16 = x"
    by (rule and_not_mask_zero)
  also have "\<dots> \<longleftrightarrow> x < 2 ^ 16"
    by (simp add: mask_eq_iff_w2p word_size)
  finally show ?thesis by (simp add: h)
qed

lemma sub8_borrow: "(ucast (a::8 word) - ucast (b::8 word) :: 16 word) < 0x100 \<longleftrightarrow> b \<le> a"
  apply (simp add: word_less_nat_alt word_le_nat_alt unat_sub_if' unat_ucast_up)
  using unat_lt2p[of a] unat_lt2p[of b] apply simp
  apply arith
  done

lemma sub16_borrow: "(ucast (a::16 word) - ucast (b::16 word) :: 32 word) < 0x10000 \<longleftrightarrow> b \<le> a"
  apply (simp add: word_less_nat_alt word_le_nat_alt unat_sub_if' unat_ucast_up)
  using unat_lt2p[of a] unat_lt2p[of b] apply simp
  apply arith
  done

text \<open>The carry of the four subtraction flag routines, as a comparison of the operands
  the routine subtracts.\<close>

lemma flag_sub8_cf: "cf (flag_sub8 s a b) = (if a < b then 1 else 0)"
  by (simp add: flag_sub8_def flag_szp8_def Let_def and_ff00 sub8_borrow not_le)

lemma flag_sub16_cf: "cf (flag_sub16 s a b) = (if a < b then 1 else 0)"
  by (simp add: flag_sub16_def flag_szp16_def Let_def and_ffff0000 sub16_borrow not_le)

lemma flag_sbb8_cf: "cf (flag_sbb8 s a b c) = (if a < b + c then 1 else 0)"
  by (simp add: flag_sbb8_def flag_szp8_def Let_def and_ff00 sub8_borrow not_le)

lemma flag_sbb16_cf: "cf (flag_sbb16 s a b c) = (if a < b + c then 1 else 0)"
  by (simp add: flag_sbb16_def flag_szp16_def Let_def and_ffff0000 sub16_borrow not_le)

lemma real_linear:
  "unat (push_bit 4 (ucast (seg::u16)) + ucast (off::u16) :: u32) = unat seg * 16 + unat off"
proof -
  have a: "unat (push_bit 4 (ucast seg :: u32)) = unat seg * 16"
    using unat_lt2p[of seg]
    by (simp add: push_bit_eq_mult unat_word_ariths unat_ucast_up)
  show ?thesis
    using unat_lt2p[of seg] unat_lt2p[of off]
    by (simp add: unat_word_ariths a unat_ucast_up)
qed

lemma and_fffff: "unat ((x::u32) AND 0x000FFFFF) = unat x mod 2 ^ 20"
proof -
  have "(0x000FFFFF :: u32) = mask 20" by (simp add: mask_eq_exp_minus_1)
  then have "unat (x AND 0x000FFFFF) = unat (take_bit 20 x)" by (simp add: take_bit_eq_mask)
  also have "\<dots> = take_bit 20 (unat x)" by (simp only: unsigned_take_bit_eq)
  also have "\<dots> = unat x mod 2 ^ 20" by (simp only: take_bit_eq_mod)
  finally show ?thesis .
qed

lemma unat_real_address:
  "unat (real_address s seg off) =
     (if a20_enabled s \<noteq> 0 then unat seg * 16 + unat off
      else (unat seg * 16 + unat off) mod 2 ^ 20)"
  by (simp add: real_address_def Let_def real_linear and_fffff)

lemma get_real_address_ok:
  "\<not> translation_faults s seg off \<Longrightarrow>
   get_real_address ic s seg off = Some (translated_address s seg off, s)"
  by (auto simp: translation_faults_def translated_address_def real_address_def
      get_real_address_def Let_def split: prod.splits)

section \<open>Claims\<close>

subsection \<open>Nested faults (C1)\<close>

text \<open>
  C1.  The dispatcher is entered with vector \<open>v\<close> while the fault-in-flight latch is set.
  For \<open>v = 8\<close> the code resets the machine.  For any other \<open>v\<close> it calls itself with
  vector 8 and the latch still set, so that this call takes the reset branch as well:
  whatever the vector, the outcome is \<^verbatim>\<open>cpu_reset\<close>, and vector 8 is not delivered.
  Two levels of dispatcher nesting are enough for the call to return.
\<close>

theorem intcall_latched_resets:
  "handling_fault s \<Longrightarrow> cpu_intcall E (Suc (Suc n)) s v = Some (cpu_reset s)"
  by simp

theorem intcall_latched_resets_witness:
  "handling_fault (cpu_zero\<lparr>handling_fault := True\<rparr>) \<and>
   cpu_intcall env0 (Suc (Suc 0)) (cpu_zero\<lparr>handling_fault := True\<rparr>) 13 =
     Some (cpu_reset (cpu_zero\<lparr>handling_fault := True\<rparr>)) \<and>
   ip (cpu_reset (cpu_zero\<lparr>handling_fault := True\<rparr>)) = 0xFFF0"
  using intcall_latched_resets [of "cpu_zero\<lparr>handling_fault := True\<rparr>" env0 0 13]
  by (simp add: cpu_reset_def OpFinit_def Let_def)

subsection \<open>Null selectors (C4)\<close>














subsection \<open>ADD AX,BX (C5)\<close>

text \<open>
  C5 (as amended).  ADD AX,BX is opcode \<^verbatim>\<open>0x01\<close> with the ModR/M fields \<open>mode = 3\<close>,
  \<open>reg = BX\<close>, \<open>rm = AX\<close>.  With AX = 0x7FFF and BX = 0x0001 it leaves AX = 0x8000,
  ZF = 0, SF = 1, OF = 1, CF = 0, AF = 1 and PF = 1: the low byte of the result is 0x00,
  which has even parity.
\<close>

theorem add_ax_bx_flags:
  "mode s = 3 \<Longrightarrow> reg s = regbx \<Longrightarrow> rm s = regax \<Longrightarrow>
   wordregs s regax = 0x7FFF \<Longrightarrow> wordregs s regbx = 0x0001 \<Longrightarrow>
   wordregs (exec_add_ev_gv s) regax = 0x8000 \<and> zf (exec_add_ev_gv s) = 0 \<and>
   sf (exec_add_ev_gv s) = 1 \<and> ofl (exec_add_ev_gv s) = 1 \<and> cf (exec_add_ev_gv s) = 0 \<and>
   af (exec_add_ev_gv s) = 1 \<and> pf (exec_add_ev_gv s) = 1"
  by (simp add: exec_add_ev_gv_def readrm16_def writerm16_def getreg16_def putreg16_def
      op_add16_def flag_add16_def flag_szp16_def Let_def parity_def)

theorem add_ax_bx_flags_witness:
  "mode add_ax_bx_input = 3 \<and> reg add_ax_bx_input = regbx \<and> rm add_ax_bx_input = regax \<and>
   wordregs add_ax_bx_input regax = 0x7FFF \<and> wordregs add_ax_bx_input regbx = 0x0001 \<and>
   wordregs (exec_add_ev_gv add_ax_bx_input) regax = 0x8000 \<and>
   pf (exec_add_ev_gv add_ax_bx_input) = 1"
  using add_ax_bx_flags [where s = add_ax_bx_input]
  by (simp add: add_ax_bx_input_def cpu_zero_def)

text \<open>
  C5 (as stated) fails: on the input AX = 0x7FFF, BX = 0x0001 the code does not leave
  PF = 0.
\<close>

theorem add_ax_bx_pf_counterexample:
  "\<not> (wordregs (exec_add_ev_gv add_ax_bx_input) regax = 0x8000 \<and>
      zf (exec_add_ev_gv add_ax_bx_input) = 0 \<and> sf (exec_add_ev_gv add_ax_bx_input) = 1 \<and>
      ofl (exec_add_ev_gv add_ax_bx_input) = 1 \<and> cf (exec_add_ev_gv add_ax_bx_input) = 0 \<and>
      af (exec_add_ev_gv add_ax_bx_input) = 1 \<and> pf (exec_add_ev_gv add_ax_bx_input) = 0)"
  by (simp add: add_ax_bx_input_def cpu_zero_def exec_add_ev_gv_def readrm16_def writerm16_def
      getreg16_def putreg16_def op_add16_def flag_add16_def flag_szp16_def Let_def parity_def)

subsection \<open>Borrow of SBB (C6)\<close>

text \<open>
  C6.  What the code computes for the carry of SBB with source \<open>0xFF\<close> (16 bits:
  \<open>0xFFFF\<close>) and incoming carry 1: \<^verbatim>\<open>v2 += v3\<close> wraps the subtrahend to 0 in the
  operand's own width, nothing is subtracted, and CF is 0 for every destination operand,
  where the borrow out of \<open>a - 0xFF - 1\<close> is 1.
\<close>

theorem sbb_borrow_lost:
  "cf (flag_sbb8 s a 0xFF 1) = 0 \<and>
   cf (op_sbb8 (s\<lparr>oper1b := a, oper2b := 0xFF, cf := 1\<rparr>)) = 0 \<and>
   cf (flag_sbb16 s b 0xFFFF 1) = 0"
  by (simp add: op_sbb8_def flag_sbb8_cf flag_sbb16_cf word_less_nat_alt)

theorem sbb_borrow_lost_witness:
  "cf (flag_sbb8 cpu_zero 0 0xFF 1) = 0 \<and> unat (0 :: u8) < unat (0xFF :: u8) + unat (1 :: u8)"
  using sbb_borrow_lost [where s = cpu_zero and a = 0 and b = 0]
  by simp

subsection \<open>Real-mode addresses and the A20 gate (C9)\<close>

text \<open>
  The two address formations that know the gate.  In real mode \<^verbatim>\<open>get_real_address\<close> and
  the real-mode branch of \<^verbatim>\<open>getea\<close> yield \<open>seg * 16 + off\<close> when \<^verbatim>\<open>a20_enabled\<close> is
  non-zero and \<open>(seg * 16 + off) mod 2^20\<close> when it is zero, with nothing raised and the
  state otherwise untouched; \<open>off\<close> is the 16-bit offset the ModR/M form selects in
  \<^verbatim>\<open>getea\<close>.  With A20 disabled, \<open>0xFFFF:0x0010\<close> is physical address 0.
\<close>

lemma real_mode_address_a20:
  "\<not> protected_mode s \<Longrightarrow>
   (\<exists>a. get_real_address ic s seg off = Some (a, s) \<and>
        unat a = (if a20_enabled s \<noteq> 0 then unat seg * 16 + unat off
                  else (unat seg * 16 + unat off) mod 2 ^ 20)) \<and>
   getea s rmval = s\<lparr>ea := ea (getea s rmval)\<rparr> \<and>
   unat (ea (getea s rmval)) =
     (if a20_enabled s \<noteq> 0
      then unat (useseg s) * 16 + unat (ucast (getea_tempea s rmval AND 0xFFFF) :: u16)
      else (unat (useseg s) * 16 + unat (ucast (getea_tempea s rmval AND 0xFFFF) :: u16)) mod 2 ^ 20) \<and>
   (a20_enabled s = 0 \<longrightarrow> get_real_address ic s 0xFFFF 0x10 = Some (0, s))"
  by (simp add: get_real_address_def getea_def Let_def real_linear and_fffff)

lemma real_mode_address_a20_example:
  "\<not> protected_mode cpu_zero \<and> a20_enabled cpu_zero = 0 \<and>
   get_real_address (\<lambda>s v. None) cpu_zero 0xFFFF 0x10 = Some (0, cpu_zero) \<and>
   ea (getea (cpu_zero\<lparr>useseg := 0xFFFF, disp16 := 0x10\<rparr>) 6) = 0"
  using real_mode_address_a20 [where s = cpu_zero and ic = "\<lambda>s v. None" and seg = "0xFFFF" and off = "0x10" and rmval = 6]
  by (simp add: cpu_zero_def getea_def getea_tempea_def Let_def)

lemma kff00_int: "(0xFF00 :: int) = push_bit 8 (mask 8)"
  by (simp add: mask_eq_exp_minus_1)

lemma bit_ff00_int: "bit (0xFF00 :: int) n \<longleftrightarrow> 8 \<le> n \<and> n < 16"
  unfolding kff00_int by (auto simp: bit_simps)

lemma byteregs_set_al: "byteregs (set_bytereg s regal v) regal = v"
  apply (simp add: byteregs_def set_bytereg_def Let_def)
  apply (rule bit_word_eqI)
  apply (auto simp: bit_simps bit_ff00_int)
  done

lemma xlat_linear:
  "unat (ucast (seg :: u16) * 16 + ucast (b :: u16) + ucast (a :: u8) :: u32) = unat seg * 16 + unat b + unat a"
  using unat_lt2p[of seg] unat_lt2p[of b] unat_lt2p[of a]
  by (simp add: unat_word_ariths unat_ucast_up)

text \<open>
  C9.  XLAT (opcode \<^verbatim>\<open>0xD7\<close>) forms its address itself.  In every mode and whatever
  \<^verbatim>\<open>a20_enabled\<close> is, AL is loaded from physical address \<open>useseg * 16 + BX + AL\<close>: the sum
  \<open>BX + AL\<close> is not wrapped to 16 bits and the gate is not applied.  On the real-mode
  input with the gate disabled, DS = 0xFFFF, BX = 0x0010 and AL = 0, where
  \<^verbatim>\<open>get_real_address\<close> maps 0xFFFF:0x0010 to physical address 0, the instruction reads
  physical address 0x100000.
\<close>

theorem xlat_ignores_a20:
  "byteregs (exec_xlat s) regal =
     mem s (ucast (useseg s) * 16 + ucast (wordregs s regbx) + ucast (byteregs s regal)) \<and>
   unat (ucast (useseg s) * 16 + ucast (wordregs s regbx) + ucast (byteregs s regal) :: u32) =
     unat (useseg s) * 16 + unat (wordregs s regbx) + unat (byteregs s regal) \<and>
   get_real_address ic xlat_input 0xFFFF 0x0010 = Some (0, xlat_input) \<and>
   map_option (\<lambda>p. byteregs (fst p) regal) (cpu_exec_step env0 0 xlat_input 0) = Some 0xBB \<and>
   mem xlat_input 0 = 0xAA \<and> mem xlat_input 0x100000 = 0xBB"
proof -
  have a: "byteregs (exec_xlat s) regal =
     mem s (ucast (useseg s) * 16 + ucast (wordregs s regbx) + ucast (byteregs s regal))"
    by (simp add: exec_xlat_def byteregs_set_al cpu_read_def)
  have b: "get_real_address ic xlat_input 0xFFFF 0x0010 = Some (0, xlat_input)"
    by (simp add: get_real_address_def xlat_input_def cpu_zero_def Let_def)
  have c: "map_option (\<lambda>p. byteregs (fst p) regal) (cpu_exec_step env0 0 xlat_input 0) = Some 0xBB"
    by (simp add: cpu_exec_step_def xlat_input_def cpu_zero_def getmem8_def get_real_address_def
        cpu_read_def StepIP_def exec_opcode_def exec_xlat_def byteregs_def set_bytereg_def Let_def)
  have d: "mem xlat_input 0 = 0xAA \<and> mem xlat_input 0x100000 = 0xBB"
    by (simp add: xlat_input_def)
  show ?thesis using a b c d by (simp add: xlat_linear)
qed

theorem xlat_ignores_a20_witness:
  "\<not> protected_mode xlat_input \<and> a20_enabled xlat_input = 0 \<and>
   byteregs (exec_xlat (xlat_input\<lparr>useseg := 0xFFFF\<rparr>)) regal = mem xlat_input 0x100000"
  using xlat_ignores_a20 [where s = "xlat_input\<lparr>useseg := 0xFFFF\<rparr>"]
  by (simp add: xlat_input_def cpu_zero_def byteregs_def)

subsection \<open>Real-mode interrupt delivery (C3)\<close>

lemma real_address_seg0: "real_address s 0 off = ucast off"
proof -
  have "unat (real_address s 0 off) = unat off"
    using unat_lt2p[of off] by (simp add: unat_real_address)
  then show ?thesis
    by (simp add: word_unat_eq_iff unat_ucast_up)
qed

lemma get_real_address_real:
  "\<not> protected_mode s \<Longrightarrow> get_real_address ic s seg off = Some (real_address s seg off, s)"
  by (simp add: get_real_address_def real_address_def Let_def)

lemma push_real:
  "\<not> protected_mode s \<Longrightarrow>
   push ic s v =
     Some (s\<lparr>wordregs := (wordregs s)(regsp := wordregs s regsp - 2),
             mem := (mem s)(real_address s (segregs s regss) (wordregs s regsp - 2) := ucast v,
                            real_address s (segregs s regss) (wordregs s regsp - 2) + 1 := ucast (drop_bit 8 v))\<rparr>)"
  by (simp add: push_def putmem16_def get_real_address_real cpu_writew_def cpu_write_def
      real_address_def Let_def)

lemma getmem16_real:
  "\<not> protected_mode s \<Longrightarrow> getmem16 ic s seg off = Some (cpu_readw s (real_address s seg off), s)"
  by (simp add: getmem16_def get_real_address_real)

lemma real_address_upd [simp]:
  "real_address (s\<lparr>wordregs := w\<rparr>) = real_address s"
  "real_address (s\<lparr>mem := m\<rparr>) = real_address s"
  "real_address (s\<lparr>ifl := x\<rparr>) = real_address s"
  "real_address (s\<lparr>tf := x\<rparr>) = real_address s"
  "real_address (s\<lparr>segregs := sr\<rparr>) = real_address s"
  "real_address (s\<lparr>handling_fault := h\<rparr>) = real_address s"
  by (simp_all add: real_address_def fun_eq_iff)

lemma cpu_readw_mem: "cpu_readw s a = mem_readw (mem s) a"
  by (simp add: cpu_readw_def cpu_read_def mem_readw_def)

lemma intcall_real_eq:
  "\<not> protected_mode s \<Longrightarrow>
   intcall_real E ic s v = Some
     (let fl = makeflagsword E s;
          sp = wordregs s regsp;
          ss = segregs s regss;
          m = (mem s)(real_address s ss (sp - 2) := ucast fl,
                      real_address s ss (sp - 2) + 1 := ucast (drop_bit 8 fl),
                      real_address s ss (sp - 4) := ucast (segregs s regcs),
                      real_address s ss (sp - 4) + 1 := ucast (drop_bit 8 (segregs s regcs)),
                      real_address s ss (sp - 6) := ucast (ip s),
                      real_address s ss (sp - 6) + 1 := ucast (drop_bit 8 (ip s)))
      in s\<lparr>ifl := 0, tf := 0, wordregs := (wordregs s)(regsp := sp - 6), mem := m,
           segregs := (segregs s)(regcs := mem_readw m (ucast (ucast v * 4 + 2 :: u16))),
           ip := mem_readw m (ucast (ucast v * 4 :: u16)),
           handling_fault := False\<rparr>)"
  by (simp add: intcall_real_def push_real getmem16_real real_address_seg0 Let_def cpu_readw_mem)

text \<open>
  C3.  Vector \<open>v\<close> is delivered in real mode: no fault is in flight, no host callback is
  registered for \<open>v\<close>, and the call is not one of the two intercepted INT 15h functions.
  The flags word is formed from the state on entry, before IF and TF are cleared (for
  the fault vectors with the latch already set); flags, CS and IP are written in this
  order at SS:SP-2, SS:SP-4 and SS:SP-6; then CS is read from physical address
  \<open>4 * v + 2\<close> and IP from \<open>4 * v\<close> of the memory the pushes left.  The result is the given
  state with IF = 0, TF = 0, SP lowered by 6, the six bytes written, and the new CS:IP;
  nothing else differs.
\<close>

theorem intcall_real_mode_delivery:
  "\<not> handling_fault s \<Longrightarrow> \<not> protected_mode s \<Longrightarrow> int_callback s v = None \<Longrightarrow>
   \<not> (v = 0x15 \<and> (byteregs s regah = 0x88 \<or> byteregs s regah = 0x87)) \<Longrightarrow>
   cpu_intcall E (Suc n) s v = Some
     (let fl = makeflagsword E (if v = 8 \<or> v = 10 \<or> v = 11 \<or> v = 12 \<or> v = 13
                                then s\<lparr>handling_fault := True\<rparr> else s);
          sp = wordregs s regsp;
          ss = segregs s regss;
          m = (mem s)(real_address s ss (sp - 2) := ucast fl,
                      real_address s ss (sp - 2) + 1 := ucast (drop_bit 8 fl),
                      real_address s ss (sp - 4) := ucast (segregs s regcs),
                      real_address s ss (sp - 4) + 1 := ucast (drop_bit 8 (segregs s regcs)),
                      real_address s ss (sp - 6) := ucast (ip s),
                      real_address s ss (sp - 6) + 1 := ucast (drop_bit 8 (ip s)))
      in s\<lparr>ifl := 0, tf := 0, wordregs := (wordregs s)(regsp := sp - 6), mem := m,
           segregs := (segregs s)(regcs := mem_readw m (ucast (ucast v * 4 + 2 :: u16))),
           ip := mem_readw m (ucast (ucast v * 4 :: u16))\<rparr>) \<and>
   unat (ucast (ucast v * 4 :: u16) :: u32) = 4 * unat v \<and>
   unat (ucast (ucast v * 4 + 2 :: u16) :: u32) = 4 * unat v + 2"
proof (intro conjI)
  assume h: "\<not> handling_fault s" "\<not> protected_mode s" "int_callback s v = None"
    "\<not> (v = 0x15 \<and> (byteregs s regah = 0x88 \<or> byteregs s regah = 0x87))"
  show "cpu_intcall E (Suc n) s v = Some
     (let fl = makeflagsword E (if v = 8 \<or> v = 10 \<or> v = 11 \<or> v = 12 \<or> v = 13
                                then s\<lparr>handling_fault := True\<rparr> else s);
          sp = wordregs s regsp;
          ss = segregs s regss;
          m = (mem s)(real_address s ss (sp - 2) := ucast fl,
                      real_address s ss (sp - 2) + 1 := ucast (drop_bit 8 fl),
                      real_address s ss (sp - 4) := ucast (segregs s regcs),
                      real_address s ss (sp - 4) + 1 := ucast (drop_bit 8 (segregs s regcs)),
                      real_address s ss (sp - 6) := ucast (ip s),
                      real_address s ss (sp - 6) + 1 := ucast (drop_bit 8 (ip s)))
      in s\<lparr>ifl := 0, tf := 0, wordregs := (wordregs s)(regsp := sp - 6), mem := m,
           segregs := (segregs s)(regcs := mem_readw m (ucast (ucast v * 4 + 2 :: u16))),
           ip := mem_readw m (ucast (ucast v * 4 :: u16))\<rparr>)"
    using h
    by (cases "v = 8 \<or> v = 10 \<or> v = 11 \<or> v = 12 \<or> v = 13")
      (auto simp add: intcall_real_eq Let_def byteregs_def)
next
  show "unat (ucast (ucast v * 4 :: u16) :: u32) = 4 * unat v"
    using unat_lt2p[of v] by (simp add: unat_ucast_up unat_word_ariths)
next
  show "unat (ucast (ucast v * 4 + 2 :: u16) :: u32) = 4 * unat v + 2"
    using unat_lt2p[of v] by (simp add: unat_ucast_up unat_word_ariths)
qed

theorem intcall_real_mode_delivery_witness:
  "\<not> handling_fault int21_input \<and> \<not> protected_mode int21_input \<and>
   int_callback int21_input 0x21 = None \<and>
   map_option (\<lambda>s. (segregs s regcs, ip s, wordregs s regsp, ifl s,
                     mem_readw (mem s) 0xFE, mem_readw (mem s) 0xFC, mem_readw (mem s) 0xFA))
     (cpu_intcall env0 (Suc 0) int21_input 0x21) =
     Some (0x5678, 0x1234, 0x00FA, 0, 0x0202, 0x0300, 0x0042)"
  using intcall_real_mode_delivery [where s = int21_input and v = "0x21" and E = env0 and n = 0]
  by (simp add: int21_input_def cpu_zero_def env0_def byteregs_def real_address_def
      mem_readw_def Let_def)

subsection \<open>The INT 15h intercept (C10)\<close>

lemma fold_copy_mem:
  "fold (\<lambda>i s. cpu_write s (d + of_nat i) (cpu_read s (sr + of_nat i))) xs s =
   s\<lparr>mem := fold (\<lambda>i m. m(d + of_nat i := m (sr + of_nat i))) xs (mem s)\<rparr>"
  by (induction xs arbitrary: s) (simp_all add: cpu_write_def cpu_read_def)

lemma unat_count_bytes: "unat (ucast (c :: u16) * 2 :: u32) = 2 * unat c"
  using unat_lt2p[of c] by (simp add: unat_word_ariths unat_ucast_up)

lemma int15_move_ok:
  "\<not> translation_faults s (segregs s reges) (wordregs s regsi) \<Longrightarrow>
   int15_move ic s = Some (int15_move_result s)"
  by (simp add: int15_move_def int15_move_result_def get_real_address_ok Let_def fold_copy_mem
      unat_count_bytes set_bytereg_def)

text \<open>
  C10 (as amended).  The dispatcher is entered with vector 0x15 and no fault in flight.
  With AH = 0x88 it returns at once with AX = 15360 and CF = 0 and nothing else changed.
  With AH = 0x87, if ES:SI translates without a fault (as it always does in real mode),
  it copies \<open>2 * CX\<close> bytes between the 24-bit bases of the table at ES:SI and returns
  with AH = 0, CF = 0 and ZF = 1.  In both cases the result is the given state with only
  these changes: nothing is pushed, CS and IP stay, and neither the callback table nor
  an interrupt table takes part.
\<close>

theorem int15_intercept:
  "\<not> handling_fault s \<Longrightarrow>
   (byteregs s regah = 0x88 \<longrightarrow>
      cpu_intcall E (Suc n) s 0x15 = Some (s\<lparr>wordregs := (wordregs s)(regax := 15360), cf := 0\<rparr>)) \<and>
   (byteregs s regah = 0x87 \<and> \<not> translation_faults s (segregs s reges) (wordregs s regsi) \<longrightarrow>
      cpu_intcall E (Suc n) s 0x15 = Some (int15_move_result s) \<and>
      byteregs (int15_move_result s) regah = 0 \<and>
      cf (int15_move_result s) = 0 \<and> zf (int15_move_result s) = 1 \<and>
      ip (int15_move_result s) = ip s \<and> segregs (int15_move_result s) = segregs s \<and>
      wordregs (int15_move_result s) regsp = wordregs s regsp)"
  apply (simp add: int15_move_ok)
  apply (simp add: int15_move_result_def Let_def byteregs_def)
  done


theorem int15_intercept_witness:
  "\<not> handling_fault int15_move_input \<and>
   byteregs int15_move_input regah = 0x87 \<and>
   \<not> translation_faults int15_move_input (segregs int15_move_input reges) (wordregs int15_move_input regsi) \<and>
   map_option (\<lambda>s. (mem s 0x300, mem s 0x301, wordregs s regax, zf s))
     (cpu_intcall env0 (Suc 0) int15_move_input 0x15) = Some (0xAA, 0xBB, 0, 1) \<and>
   byteregs (cpu_zero\<lparr>wordregs := (wordregs cpu_zero)(regax := 0x8800)\<rparr>) regah = 0x88 \<and>
   map_option (\<lambda>s. wordregs s regax)
     (cpu_intcall env0 (Suc 0) (cpu_zero\<lparr>wordregs := (wordregs cpu_zero)(regax := 0x8800)\<rparr>) 0x15) = Some 15360"
  using int15_intercept [where s = int15_move_input and E = env0 and n = 0]
    int15_intercept [where s = "cpu_zero\<lparr>wordregs := (wordregs cpu_zero)(regax := 0x8800)\<rparr>" and E = env0 and n = 0]
  by (simp add: int15_move_input_def cpu_zero_def byteregs_def translation_faults_def
      int15_move_result_def translated_address_def real_address_def read_24bit_base_def
      cpu_read_def Let_def upt_rec)

text \<open>
  C10 (as stated) fails in protected mode when ES:SI does not translate:
  \<^verbatim>\<open>get_real_address\<close> raises vector 13 from inside the intercept.  On this input the
  IDT limit is consulted, the gate lies outside it, and the nested fault resets the
  machine; the state returned is not the given state with the block moved.
\<close>

theorem int15_intercept_counterexample:
  "\<not> (\<not> handling_fault int15_fault_input \<and> byteregs int15_fault_input regah = 0x87 \<longrightarrow>
      cpu_intcall env0 (Suc (Suc (Suc 0))) int15_fault_input 0x15 =
        Some (int15_move_result int15_fault_input))"
proof -
  have a: "\<not> handling_fault int15_fault_input \<and> byteregs int15_fault_input regah = 0x87"
    by (simp add: int15_fault_input_def cpu_zero_def byteregs_def)
  have b: "map_option ip (cpu_intcall env0 (Suc (Suc (Suc 0))) int15_fault_input 0x15) = Some 0xFFF0"
    by (simp add: int15_fault_input_def cpu_zero_def byteregs_def int15_move_def
        get_real_address_def translate_address_safe_def zero_cache_def intcall_protected_def
        cpu_reset_def OpFinit_def set_bytereg_def Let_def)
  have c: "ip (int15_move_result int15_fault_input) = 0"
    by (simp add: int15_move_result_def int15_fault_input_def cpu_zero_def Let_def)
  show ?thesis using a b c by auto
qed

subsection \<open>MOVSB (C2)\<close>

lemma and_ffff16: "(x :: u16) AND 0xFFFF = x"
proof -
  have "(0xFFFF :: u16) = - 1" by simp
  then show ?thesis by (simp only: and.right_neutral)
qed

lemma translation_cong:
  "protected_mode t = protected_mode s \<Longrightarrow> segregs t = segregs s \<Longrightarrow> segcache t = segcache s \<Longrightarrow>
   translation_faults t seg off = translation_faults s seg off"
  by (simp add: translation_faults_def translate_address_safe_def)

lemma translated_cong:
  "protected_mode t = protected_mode s \<Longrightarrow> segregs t = segregs s \<Longrightarrow> segcache t = segcache s \<Longrightarrow>
   a20_enabled t = a20_enabled s \<Longrightarrow>
   translated_address t seg off = translated_address s seg off"
  by (simp add: translated_address_def translate_address_safe_def real_address_def)

lemma prefix_loop_step:
  assumes nf: "\<not> fetch_faults s 0" and pc: "prefix_count < 10"
  shows "prefix_loop ic s prefix_count =
     (let s6 = s\<lparr>savecs := segregs s regcs, saveip := ip s, opcode := fetch_byte s 0, ip := ip s + 1\<rparr>
      in if is_prefix (fetch_byte s 0) then prefix_loop ic (prefix_effect (fetch_byte s 0) s6) (Suc prefix_count)
         else Some s6)"
proof -
  let ?s4 = "s\<lparr>savecs := segregs s regcs, saveip := ip s\<rparr>"
  have "translation_faults ?s4 (segregs s regcs) (ip s) = translation_faults s (segregs s regcs) (ip s)"
    by (rule translation_cong) simp_all
  then have nf4: "\<not> translation_faults ?s4 (segregs s regcs) (ip s)"
    using nf by (simp add: fetch_faults_def)
  have ta: "translated_address ?s4 (segregs s regcs) (ip s) = translated_address s (segregs s regcs) (ip s)"
    by (rule translated_cong) simp_all
  have g: "getmem8 ic ?s4 (segregs s regcs) (ip s) = Some (fetch_byte s 0, ?s4)"
    using nf4 by (simp add: getmem8_def get_real_address_ok cpu_read_def ta fetch_byte_def)
  show ?thesis
    apply (subst prefix_loop.simps)
    using pc
    apply (simp add: and_ffff16 g Let_def StepIP_def is_prefix_def prefix_effect_def
        del: prefix_loop.simps)
    done
qed


lemma list_all_upt: "list_all P [0 ..< n] \<longleftrightarrow> (\<forall>i<n. P i)"
  by (auto simp: list_all_iff)

lemma fetch_shift:
  assumes "mem t = mem s" "protected_mode t = protected_mode s" "segregs t = segregs s"
    "segcache t = segcache s" "a20_enabled t = a20_enabled s" "ip t = ip s + 1"
  shows "fetch_byte t i = fetch_byte s (Suc i)" and "fetch_faults t i = fetch_faults s (Suc i)"
proof -
  have e: "ip t + of_nat i = ip s + of_nat (Suc i)"
    using assms(6) by simp
  have a: "translated_address t (segregs s regcs) (ip s + of_nat (Suc i)) =
      translated_address s (segregs s regcs) (ip s + of_nat (Suc i))"
    by (rule translated_cong) (simp_all add: assms)
  have b: "translation_faults t (segregs s regcs) (ip s + of_nat (Suc i)) =
      translation_faults s (segregs s regcs) (ip s + of_nat (Suc i))"
    by (rule translation_cong) (simp_all add: assms)
  show "fetch_byte t i = fetch_byte s (Suc i)"
    unfolding fetch_byte_def e assms(1) assms(3) a ..
  show "fetch_faults t i = fetch_faults s (Suc i)"
    unfolding fetch_faults_def e assms(3) b ..
qed

lemma prefix_effect_upd:
  "prefix_effect b (s\<lparr>savecs := a, saveip := c, opcode := d, ip := e\<rparr>) =
   (prefix_effect b s)\<lparr>savecs := a, saveip := c, opcode := d, ip := e\<rparr>"
  by (simp add: prefix_effect_def)

lemma fold_prefix_upd:
  "fold prefix_effect ps (s\<lparr>savecs := a, saveip := c, opcode := d, ip := e\<rparr>) =
   (fold prefix_effect ps s)\<lparr>savecs := a, saveip := c, opcode := d, ip := e\<rparr>"
  by (induction ps arbitrary: s) (simp_all add: prefix_effect_upd)

lemma prefix_effect_same:
  "mem (prefix_effect b s) = mem s" "protected_mode (prefix_effect b s) = protected_mode s"
  "segregs (prefix_effect b s) = segregs s" "segcache (prefix_effect b s) = segcache s"
  "a20_enabled (prefix_effect b s) = a20_enabled s" "ip (prefix_effect b s) = ip s"
  "wordregs (prefix_effect b s) = wordregs s" "df (prefix_effect b s) = df s"
  by (simp_all add: prefix_effect_def)

text \<open>The state a run of \<open>k\<close> prefixes and an opcode leaves when nothing is raised.\<close>

lemma prefix_loop_run:
  "k + pc \<le> 9 \<Longrightarrow> list_all is_prefix (prefix_bytes s k) \<Longrightarrow> \<not> is_prefix (fetch_byte s k) \<Longrightarrow>
   list_all (\<lambda>i. \<not> fetch_faults s i) [0 ..< Suc k] \<Longrightarrow>
   prefix_loop ic s pc = Some
     (s\<lparr>savecs := segregs s regcs, saveip := ip s + of_nat k, opcode := fetch_byte s k,
        ip := ip s + of_nat k + 1,
        reptype := reptype (fold prefix_effect (prefix_bytes s k) s),
        segoverride := segoverride (fold prefix_effect (prefix_bytes s k) s),
        useseg := useseg (fold prefix_effect (prefix_bytes s k) s)\<rparr>)"
proof (induction k arbitrary: s pc)
  case 0
  then have nf: "\<not> fetch_faults s 0" and np: "\<not> is_prefix (fetch_byte s 0)" and pc: "pc < 10"
    by simp_all
  show ?case
    by (simp add: prefix_loop_step [OF nf pc] np prefix_bytes_def Let_def del: prefix_loop.simps)
next
  case (Suc k)
  define b where "b = fetch_byte s 0"
  define s6 where "s6 = s\<lparr>savecs := segregs s regcs, saveip := ip s, opcode := b, ip := ip s + 1\<rparr>"
  define s' where "s' = prefix_effect b s6"
  have nfs: "\<forall>i<Suc (Suc k). \<not> fetch_faults s i"
    using Suc.prems(4) by (simp only: list_all_upt)
  then have nf: "\<not> fetch_faults s 0" by simp
  have pc: "pc < 10" using Suc.prems(1) by simp
  have pb: "prefix_bytes s (Suc k) = b # map (\<lambda>i. fetch_byte s (Suc i)) [0 ..< k]"
    unfolding prefix_bytes_def b_def by (simp only: map_upt_Suc)
  have isp: "is_prefix b" using Suc.prems(2) by (simp add: pb)
  have same: "mem s' = mem s" "protected_mode s' = protected_mode s" "segregs s' = segregs s"
    "segcache s' = segcache s" "a20_enabled s' = a20_enabled s" "ip s' = ip s + 1"
    by (simp_all add: s'_def s6_def prefix_effect_same)
  note sh = fetch_shift [OF same]
  have pb': "prefix_bytes s' k = map (\<lambda>i. fetch_byte s (Suc i)) [0 ..< k]"
    by (simp add: prefix_bytes_def sh)
  have step: "prefix_loop ic s pc = prefix_loop ic s' (Suc pc)"
    using isp by (simp add: prefix_loop_step [OF nf pc] Let_def b_def [symmetric] s6_def [symmetric]
        s'_def [symmetric] del: prefix_loop.simps)
  have h1: "k + Suc pc \<le> 9" using Suc.prems(1) by simp
  have h2: "list_all is_prefix (prefix_bytes s' k)"
    using Suc.prems(2) by (simp add: pb pb')
  have h3: "\<not> is_prefix (fetch_byte s' k)"
    using Suc.prems(3) by (simp add: sh)
  have h4: "list_all (\<lambda>i. \<not> fetch_faults s' i) [0 ..< Suc k]"
    using nfs by (simp only: list_all_upt sh) auto
  have fo: "fold prefix_effect (prefix_bytes s' k) s' =
      (fold prefix_effect (prefix_bytes s (Suc k)) s)
        \<lparr>savecs := segregs s regcs, saveip := ip s, opcode := b, ip := ip s + 1\<rparr>"
    unfolding pb pb' by (simp add: s'_def s6_def prefix_effect_upd fold_prefix_upd)
  have ipe: "ip s + 1 + of_nat k = ip s + of_nat (Suc k)" by simp
  have fin: "s'\<lparr>savecs := a1, saveip := a2, opcode := a3, ip := a4, reptype := a5,
               segoverride := a6, useseg := a7\<rparr> =
             s\<lparr>savecs := a1, saveip := a2, opcode := a3, ip := a4, reptype := a5,
               segoverride := a6, useseg := a7\<rparr>" for a1 a2 a3 a4 a5 a6 a7
    by (simp add: s'_def s6_def prefix_effect_def)
  show ?case
    unfolding step Suc.IH [OF h1 h2 h3 h4] fo sh same ipe
    by (simp add: fin)
qed


lemma getmem8_ok:
  "\<not> translation_faults s seg off \<Longrightarrow>
   getmem8 ic s seg off = Some (mem s (translated_address s seg off), s)"
  by (simp add: getmem8_def get_real_address_ok cpu_read_def)

lemma putmem8_ok:
  "\<not> translation_faults s seg off \<Longrightarrow>
   putmem8 ic s seg off v = Some (s\<lparr>mem := (mem s)(translated_address s seg off := v)\<rparr>)"
  by (simp add: putmem8_def get_real_address_ok cpu_write_def)

text \<open>The body of \<^verbatim>\<open>case 0xA4\<close> on the state in which the \<^verbatim>\<open>switch\<close> is entered.\<close>

lemma exec_movsb_cases:
  "(reptype s \<noteq> 0 \<and> wordregs s regcx = 0 \<longrightarrow> exec_movsb ic s firstip loopcount = Some (s, loopcount)) \<and>
   (\<not> (reptype s \<noteq> 0 \<and> wordregs s regcx = 0) \<and>
    \<not> translation_faults s (useseg s) (wordregs s regsi) \<and>
    \<not> translation_faults s (segregs s reges) (wordregs s regdi) \<longrightarrow>
    exec_movsb ic s firstip loopcount = Some
      (s\<lparr>mem := (mem s)(translated_address s (segregs s reges) (wordregs s regdi) :=
                          mem s (translated_address s (useseg s) (wordregs s regsi))),
          wordregs := (wordregs s)
            (regsi := (if df s \<noteq> 0 then wordregs s regsi - 1 else wordregs s regsi + 1),
             regdi := (if df s \<noteq> 0 then wordregs s regdi - 1 else wordregs s regdi + 1),
             regcx := (if reptype s \<noteq> 0 then wordregs s regcx - 1 else wordregs s regcx)),
          ip := (if reptype s \<noteq> 0 then firstip else ip s)\<rparr>,
       loopcount + 1))"
proof (intro conjI impI)
  assume "reptype s \<noteq> 0 \<and> wordregs s regcx = 0"
  then show "exec_movsb ic s firstip loopcount = Some (s, loopcount)"
    by (simp add: exec_movsb_def)
next
  assume h: "\<not> (reptype s \<noteq> 0 \<and> wordregs s regcx = 0) \<and>
    \<not> translation_faults s (useseg s) (wordregs s regsi) \<and>
    \<not> translation_faults s (segregs s reges) (wordregs s regdi)"
  show "exec_movsb ic s firstip loopcount = Some
      (s\<lparr>mem := (mem s)(translated_address s (segregs s reges) (wordregs s regdi) :=
                          mem s (translated_address s (useseg s) (wordregs s regsi))),
          wordregs := (wordregs s)
            (regsi := (if df s \<noteq> 0 then wordregs s regsi - 1 else wordregs s regsi + 1),
             regdi := (if df s \<noteq> 0 then wordregs s regdi - 1 else wordregs s regdi + 1),
             regcx := (if reptype s \<noteq> 0 then wordregs s regcx - 1 else wordregs s regcx)),
          ip := (if reptype s \<noteq> 0 then firstip else ip s)\<rparr>,
       loopcount + 1)"
  proof (cases "reptype s = 0")
    case True
    with h show ?thesis
      by (cases "df s = 0") (simp_all add: exec_movsb_def getmem8_ok putmem8_ok Let_def fun_upd_idem)
  next
    case False
    with h show ?thesis
      by (cases "df s = 0") (simp_all add: exec_movsb_def getmem8_ok putmem8_ok Let_def)
  qed
qed

lemma fetch_same:
  assumes "mem t = mem s" "protected_mode t = protected_mode s" "segregs t = segregs s"
    "segcache t = segcache s" "a20_enabled t = a20_enabled s" "ip t = ip s"
  shows "fetch_byte t i = fetch_byte s i" and "fetch_faults t i = fetch_faults s i"
proof -
  have a: "translated_address t (segregs s regcs) (ip s + of_nat i) =
      translated_address s (segregs s regcs) (ip s + of_nat i)"
    by (rule translated_cong) (simp_all add: assms)
  have b: "translation_faults t (segregs s regcs) (ip s + of_nat i) =
      translation_faults s (segregs s regcs) (ip s + of_nat i)"
    by (rule translation_cong) (simp_all add: assms)
  show "fetch_byte t i = fetch_byte s i"
    unfolding fetch_byte_def assms(1) assms(3) assms(6) a ..
  show "fetch_faults t i = fetch_faults s i"
    unfolding fetch_faults_def assms(3) assms(6) b ..
qed

lemma prefix_effect_trap:
  "prefix_effect b (s\<lparr>trap_toggle := x\<rparr>) = (prefix_effect b s)\<lparr>trap_toggle := x\<rparr>"
  by (simp add: prefix_effect_def)

lemma fold_prefix_trap:
  "fold prefix_effect ps (s\<lparr>trap_toggle := x\<rparr>) = (fold prefix_effect ps s)\<lparr>trap_toggle := x\<rparr>"
  by (induction ps arbitrary: s) (simp_all add: prefix_effect_trap)

lemma after_fetch_same:
  "mem (after_fetch s k) = mem s" "wordregs (after_fetch s k) = wordregs s"
  "segregs (after_fetch s k) = segregs s" "segcache (after_fetch s k) = segcache s"
  "protected_mode (after_fetch s k) = protected_mode s"
  "a20_enabled (after_fetch s k) = a20_enabled s" "df (after_fetch s k) = df s"
  "ip (after_fetch s k) = ip s + of_nat k + 1" "opcode (after_fetch s k) = fetch_byte s k"
  by (simp_all add: after_fetch_def Let_def)

text \<open>An iteration of \<^verbatim>\<open>cpu_exec\<close> that fetches MOVSB enters \<^verbatim>\<open>case 0xA4\<close> with
  \<^verbatim>\<open>firstip\<close> the IP the iteration started with.\<close>

lemma cpu_exec_step_movsb:
  assumes tt: "trap_toggle s = 0" and hl: "hltstate s = 0" and mf: "movsb_fetched s k"
  shows "cpu_exec_step E n s loopcount =
           exec_movsb (cpu_intcall E n) (after_fetch s k) (ip s) loopcount"
proof -
  define s0 where "s0 = s\<lparr>reptype := 0, segoverride := 0, useseg := segregs s regds\<rparr>"
  define s5 where "s5 = s0\<lparr>trap_toggle := (if tf s \<noteq> 0 then 1 else 0)\<rparr>"
  have same: "mem s5 = mem s" "protected_mode s5 = protected_mode s" "segregs s5 = segregs s"
    "segcache s5 = segcache s" "a20_enabled s5 = a20_enabled s" "ip s5 = ip s"
    by (simp_all add: s5_def s0_def)
  note fs = fetch_same [OF same]
  have pb: "prefix_bytes s5 k = prefix_bytes s k"
    by (simp add: prefix_bytes_def fs)
  have h1: "k + 0 \<le> 9" and h2: "list_all is_prefix (prefix_bytes s5 k)"
    and h3: "\<not> is_prefix (fetch_byte s5 k)"
    and h4: "list_all (\<lambda>i. \<not> fetch_faults s5 i) [0 ..< Suc k]"
    using mf by (simp_all add: movsb_fetched_def pb fs is_prefix_def del: upt_Suc)
  note run = prefix_loop_run [OF h1 h2 h3 h4, of "cpu_intcall E n"]
  have s5eq: "(if tf s \<noteq> 0 then s\<lparr>trap_toggle := 1\<rparr> else s\<lparr>trap_toggle := 0\<rparr>)
      \<lparr>reptype := 0, segoverride := 0, useseg := segregs s regds\<rparr> = s5"
    by (simp add: s5_def s0_def)
  have op: "fetch_byte s k = 0xA4"
    using mf by (simp add: movsb_fetched_def)
  have fo: "fold prefix_effect (prefix_bytes s k) s5 =
      (fold prefix_effect (prefix_bytes s k) s0)\<lparr>trap_toggle := (if tf s \<noteq> 0 then 1 else 0)\<rparr>"
    by (simp add: s5_def fold_prefix_trap)
  have af: "(s5\<lparr>savecs := segregs s5 regcs, saveip := ip s5 + of_nat k, opcode := fetch_byte s5 k,
        ip := ip s5 + of_nat k + 1,
        reptype := reptype (fold prefix_effect (prefix_bytes s5 k) s5),
        segoverride := segoverride (fold prefix_effect (prefix_bytes s5 k) s5),
        useseg := useseg (fold prefix_effect (prefix_bytes s5 k) s5)\<rparr>)
      \<lparr>totalexec := totalexec s + 1\<rparr> = after_fetch s k"
    unfolding pb fo fs same
    by (simp add: after_fetch_def Let_def s5_def s0_def)
  have te: "totalexec (s5\<lparr>savecs := a1, saveip := a2, opcode := a3, ip := a4, reptype := a5,
        segoverride := a6, useseg := a7\<rparr>) = totalexec s" for a1 a2 a3 a4 a5 a6 a7
    by (simp add: s5_def s0_def)
  have hl2: "hltstate (if tf s \<noteq> 0 then s\<lparr>trap_toggle := 1\<rparr> else s\<lparr>trap_toggle := 0\<rparr>) = 0"
    using hl by simp
  have i5: "ip ((if tf s \<noteq> 0 then s\<lparr>trap_toggle := 1\<rparr> else s\<lparr>trap_toggle := 0\<rparr>)
      \<lparr>reptype := 0, segoverride := 0, useseg := segregs s regds\<rparr>) = ip s"
    by simp
  have sr: "segregs ((if tf s \<noteq> 0 then s\<lparr>trap_toggle := 1\<rparr> else s\<lparr>trap_toggle := 0\<rparr>)
      \<lparr>reptype := 0, segoverride := 0\<rparr>) regds = segregs s regds"
    by simp
  have "cpu_exec_step E n s loopcount =
      exec_opcode E (cpu_intcall E n) (after_fetch s k) (ip s) loopcount"
    unfolding cpu_exec_step_def
    using tt hl
    apply (simp only: Let_def if_False bind.bind_lunit simp_thms hl2 sr)
    apply (simp only: s5eq i5)
    apply (simp only: s5eq run bind.bind_lunit te af)
    apply (simp only: same)
    done
  then show ?thesis
    by (simp add: exec_opcode_def after_fetch_same op)
qed

text \<open>
  C2 (as amended).  An iteration of \<^verbatim>\<open>cpu_exec\<close> that starts with no trap pending and the
  processor not halted, at an instruction that is MOVSB behind \<open>k \<le> 9\<close> prefix bytes
  whose fetch raises nothing.  \<open>after_fetch s k\<close> is the state in which \<^verbatim>\<open>case 0xA4\<close> is
  entered: the registers, the segment registers and the memory are those of \<open>s\<close>, and IP
  is behind the opcode.  With a repetition prefix among the prefixes and CX = 0 this is
  the state the iteration leaves.  Otherwise, if the translations of useseg:SI and of
  ES:DI do not fault (in real mode they never do), the byte at useseg:SI is stored at
  ES:DI, SI and DI both move by +1 (DF = 0) or -1 (DF set) modulo \<open>2^16\<close>, CX is
  decremented exactly when a repetition prefix is active, and with a repetition prefix IP
  is the IP the iteration started with, the first byte of the instruction, under the same
  CS; nothing else changes.
\<close>

theorem movsb_step:
  "trap_toggle s = 0 \<Longrightarrow> hltstate s = 0 \<Longrightarrow> movsb_fetched s k \<Longrightarrow>
   (reptype (after_fetch s k) \<noteq> 0 \<and> wordregs s regcx = 0 \<longrightarrow>
      cpu_exec_step E n s loopcount = Some (after_fetch s k, loopcount)) \<and>
   (\<not> (reptype (after_fetch s k) \<noteq> 0 \<and> wordregs s regcx = 0) \<and>
    \<not> translation_faults s (useseg (after_fetch s k)) (wordregs s regsi) \<and>
    \<not> translation_faults s (segregs s reges) (wordregs s regdi) \<longrightarrow>
      cpu_exec_step E n s loopcount = Some
        ((after_fetch s k)
           \<lparr>mem := (mem s)(translated_address s (segregs s reges) (wordregs s regdi) :=
                     mem s (translated_address s (useseg (after_fetch s k)) (wordregs s regsi))),
            wordregs := (wordregs s)
              (regsi := (if df s \<noteq> 0 then wordregs s regsi - 1 else wordregs s regsi + 1),
               regdi := (if df s \<noteq> 0 then wordregs s regdi - 1 else wordregs s regdi + 1),
               regcx := (if reptype (after_fetch s k) \<noteq> 0 then wordregs s regcx - 1
                         else wordregs s regcx)),
            ip := (if reptype (after_fetch s k) \<noteq> 0 then ip s else ip s + of_nat k + 1)\<rparr>,
         loopcount + 1)) \<and>
   segregs (after_fetch s k) = segregs s \<and> mem (after_fetch s k) = mem s \<and>
   wordregs (after_fetch s k) = wordregs s \<and> ip (after_fetch s k) = ip s + of_nat k + 1"
proof -
  assume tt: "trap_toggle s = 0" and hl: "hltstate s = 0" and mf: "movsb_fetched s k"
  let ?a = "after_fetch s k"
  have t1: "translation_faults ?a seg off = translation_faults s seg off" for seg off
    by (rule translation_cong) (simp_all add: after_fetch_same)
  have t2: "translated_address ?a seg off = translated_address s seg off" for seg off
    by (rule translated_cong) (simp_all add: after_fetch_same)
  note c = exec_movsb_cases [of ?a "cpu_intcall E n" "ip s" loopcount]
  show ?thesis
    using c
    unfolding cpu_exec_step_movsb [OF tt hl mf] t1 t2 after_fetch_same
    by simp
qed


theorem movsb_step_witness:
  "trap_toggle movsb_input = 0 \<and> hltstate movsb_input = 0 \<and> movsb_fetched movsb_input (Suc 0) \<and>
   reptype (after_fetch movsb_input (Suc 0)) = 1 \<and>
   \<not> translation_faults movsb_input (useseg (after_fetch movsb_input (Suc 0))) (wordregs movsb_input regsi) \<and>
   \<not> translation_faults movsb_input (segregs movsb_input reges) (wordregs movsb_input regdi) \<and>
   map_option (\<lambda>p. (mem (fst p) 0x300, wordregs (fst p) regsi, wordregs (fst p) regdi,
                     wordregs (fst p) regcx, segregs (fst p) regcs, ip (fst p), snd p))
     (cpu_exec_step env0 0 movsb_input 0) = Some (0xAA, 0x0201, 0x0301, 2, 0, 0x0010, 1) \<and>
   movsb_fetched (movsb_input\<lparr>wordregs := (wordregs movsb_input)(regcx := 0)\<rparr>) (Suc 0) \<and>
   map_option (\<lambda>p. (mem (fst p) 0x300, wordregs (fst p) regsi, wordregs (fst p) regdi,
                     wordregs (fst p) regcx, segregs (fst p) regcs, ip (fst p), snd p))
     (cpu_exec_step env0 0 (movsb_input\<lparr>wordregs := (wordregs movsb_input)(regcx := 0)\<rparr>) 0) =
       Some (0, 0x0200, 0x0300, 0, 0, 0x0012, 0)"
proof -
  let ?z = "movsb_input\<lparr>wordregs := (wordregs movsb_input)(regcx := 0)\<rparr>"
  have h: "trap_toggle movsb_input = 0" "hltstate movsb_input = 0" "movsb_fetched movsb_input (Suc 0)"
    by (simp_all add: movsb_fetched_def prefix_bytes_def fetch_byte_def fetch_faults_def
        is_prefix_def translation_faults_def translated_address_def real_address_def
        movsb_input_def cpu_zero_def)
  have hz: "trap_toggle ?z = 0" "hltstate ?z = 0" "movsb_fetched ?z (Suc 0)"
    by (simp_all add: movsb_fetched_def prefix_bytes_def fetch_byte_def fetch_faults_def
        is_prefix_def translation_faults_def translated_address_def real_address_def
        movsb_input_def cpu_zero_def)
  have a: "reptype (after_fetch movsb_input (Suc 0)) = 1" "useseg (after_fetch movsb_input (Suc 0)) = 0"
    by (simp_all add: after_fetch_def prefix_bytes_def fetch_byte_def prefix_effect_def
        translated_address_def real_address_def movsb_input_def cpu_zero_def Let_def)
  have f: "\<not> translation_faults movsb_input seg off" for seg off
    by (simp add: translation_faults_def movsb_input_def cpu_zero_def)
  note c = movsb_step [OF h, where E = env0 and n = 0 and loopcount = 0]
  note cz = movsb_step [OF hz, where E = env0 and n = 0 and loopcount = 0]
  have r: "map_option (\<lambda>p. (mem (fst p) 0x300, wordregs (fst p) regsi, wordregs (fst p) regdi,
                     wordregs (fst p) regcx, segregs (fst p) regcs, ip (fst p), snd p))
     (cpu_exec_step env0 0 movsb_input 0) = Some (0xAA, 0x0201, 0x0301, 2, 0, 0x0010, 1)"
    using c
    by (simp add: after_fetch_def prefix_bytes_def fetch_byte_def prefix_effect_def
        translation_faults_def translated_address_def real_address_def movsb_input_def
        cpu_zero_def Let_def)
  have rz: "map_option (\<lambda>p. (mem (fst p) 0x300, wordregs (fst p) regsi, wordregs (fst p) regdi,
                     wordregs (fst p) regcx, segregs (fst p) regcs, ip (fst p), snd p))
     (cpu_exec_step env0 0 ?z 0) = Some (0, 0x0200, 0x0300, 0, 0, 0x0012, 0)"
    using cz
    by (simp add: after_fetch_def prefix_bytes_def fetch_byte_def prefix_effect_def
        translation_faults_def translated_address_def real_address_def movsb_input_def
        cpu_zero_def Let_def)
  show ?thesis
    using h hz a f r rz by simp
qed

text \<open>
  C2 (as stated) fails when a translation faults: \<^verbatim>\<open>get_real_address\<close> then raises
  vector 13 in the middle of the instruction.  On this input MOVSB is fetched through the
  valid cache of CS, the source DS:SI does not translate, no gate is present and the
  machine is reset, and the iteration leaves SI = 1 where SI was 5 and DF = 0.
\<close>

theorem movsb_fault_counterexample:
  "\<not> (trap_toggle movsb_fault_input = 0 \<and> hltstate movsb_fault_input = 0 \<and>
      movsb_fetched movsb_fault_input 0 \<and> reptype (after_fetch movsb_fault_input 0) = 0 \<and>
      df movsb_fault_input = 0 \<longrightarrow>
      result_si (cpu_exec_step env0 (Suc (Suc (Suc 0))) movsb_fault_input 0) =
        Some (wordregs movsb_fault_input regsi + 1))"
proof -
  have a: "result_si (cpu_exec_step env0 (Suc (Suc (Suc 0))) movsb_fault_input 0) = Some 1"
    by (simp add: result_si_def cpu_exec_step_def exec_opcode_def exec_movsb_def
        movsb_fault_input_def cpu_zero_def getmem8_def putmem8_def get_real_address_def
        translate_address_safe_def zero_cache_def StepIP_def intcall_protected_def cpu_reset_def
        OpFinit_def cpu_read_def cpu_write_def byteregs_def Let_def)
  have b: "trap_toggle movsb_fault_input = 0 \<and> hltstate movsb_fault_input = 0 \<and>
      movsb_fetched movsb_fault_input 0 \<and> reptype (after_fetch movsb_fault_input 0) = 0 \<and>
      df movsb_fault_input = 0 \<and> wordregs movsb_fault_input regsi = 5"
    by (simp add: movsb_fetched_def after_fetch_def prefix_bytes_def fetch_byte_def fetch_faults_def
        translation_faults_def translated_address_def translate_address_safe_def
        movsb_fault_input_def cpu_zero_def)
  show ?thesis
    using a b by simp
qed

text \<open>
  The bound of nine prefixes cannot be dropped.  With REP, nine LOCK prefixes and MOVSB,
  the opcode is the eleventh byte fetched: vector 13 is raised, \<^verbatim>\<open>case 0xA4\<close> still runs,
  and the rewound IP is paired with the handler's CS.  The iteration ends at 5678:0000 with
  one frame on the stack and CX = 2.
\<close>

lemma rep_ten_prefix_not_reentered:
  "map_option (\<lambda>p. (segregs (fst p) regcs, ip (fst p), wordregs (fst p) regsp, wordregs (fst p) regcx))
     (cpu_exec_step env0 (Suc 0) rep_ten_prefix_input 0) = Some (0x5678, 0x0000, 0x00FA, 2)"
  by (simp add: cpu_exec_step_def rep_ten_prefix_input_def vectors_6_13_def cpu_zero_def env0_def
      getmem8_def putmem8_def get_real_address_def cpu_read_def StepIP_def intcall_real_def push_def
      putmem16_def getmem16_def cpu_writew_def cpu_write_def cpu_readw_def exec_opcode_def
      exec_movsb_def byteregs_def Let_def)

subsection \<open>Prefix runs (C7)\<close>

text \<open>
  C7.  What the code does with a run of prefixes, on two real-mode inputs.  Ten LOCK
  prefixes followed by NOP: \<^verbatim>\<open>prefix_count\<close> counts every byte fetched, the NOP is the
  eleventh, and vector 13 is raised (CS:IP is the handler 5678:1234, one frame is on the
  stack), where the claim has the instruction executed normally.  Eleven LOCK prefixes:
  vector 13 is raised, the loop is left by \<^verbatim>\<open>break\<close>, and the opcode \<^verbatim>\<open>switch\<close> still
  runs on the last byte fetched, the prefix \<^verbatim>\<open>0xF0\<close>, which has no \<^verbatim>\<open>case\<close>: vector 6 is
  raised on top (CS:IP is the handler 9ABC:4321, two frames are on the stack), where the
  claim has the instruction abandoned.
\<close>

theorem prefix_run_outcomes:
  "result_cs_ip_sp (cpu_exec_step env0 (Suc 0) ten_prefix_input 0) = Some (0x5678, 0x1234, 0x00FA) \<and>
   result_cs_ip_sp (cpu_exec_step env0 (Suc 0) eleven_prefix_input 0) = Some (0x9ABC, 0x4321, 0x00F4)"
  by (simp add: result_cs_ip_sp_def cpu_exec_step_def ten_prefix_input_def eleven_prefix_input_def
      vectors_6_13_def cpu_zero_def env0_def getmem8_def get_real_address_def cpu_read_def
      StepIP_def intcall_real_def push_def putmem16_def getmem16_def cpu_writew_def cpu_write_def
      cpu_readw_def exec_opcode_def byteregs_def Let_def)

theorem prefix_run_outcomes_witness:
  "map_option fst (result_cs_ip_sp (cpu_exec_step env0 (Suc 0) ten_prefix_input 0)) = Some 0x5678"
  using prefix_run_outcomes by simp

subsection \<open>FPU push and pop (C8)\<close>

lemma k3800_int: "(0x3800 :: int) = push_bit 11 (mask 3)"
  by (simp add: mask_eq_exp_minus_1)

lemma bit_3800_int: "bit (0x3800 :: int) n \<longleftrightarrow> 11 \<le> n \<and> n < 14"
  unfolding k3800_int by (auto simp add: bit_simps)

lemma sw_field: "(w :: u16) AND 0x3800 = push_bit 11 (take_bit 3 (drop_bit 11 w))"
  by (rule bit_word_eqI) (auto simp add: bit_simps bit_3800_int)

lemma split11: "push_bit 11 (drop_bit 11 w) + take_bit 11 w = (w :: u16)"
  by (rule bits_ident)

lemma add_or11: "push_bit 11 (x :: u16) + take_bit 11 w = push_bit 11 x OR take_bit 11 (w :: u16)"
  by (rule disjunctive_add) (auto simp add: bit_simps)

lemma sub_800: "(w :: u16) - push_bit 11 1 = push_bit 11 (drop_bit 11 w - 1) OR take_bit 11 w"
proof -
  have "w - push_bit 11 1 = (push_bit 11 (drop_bit 11 w) + take_bit 11 w) - push_bit 11 1"
    by (simp only: split11)
  also have "\<dots> = push_bit 11 (drop_bit 11 w - 1) + take_bit 11 w"
    by (simp add: push_bit_eq_mult algebra_simps)
  finally show ?thesis by (simp only: add_or11)
qed

lemma add_800: "(w :: u16) + push_bit 11 1 = push_bit 11 (drop_bit 11 w + 1) OR take_bit 11 w"
proof -
  have "w + push_bit 11 1 = (push_bit 11 (drop_bit 11 w) + take_bit 11 w) + push_bit 11 1"
    by (simp only: split11)
  also have "\<dots> = push_bit 11 (drop_bit 11 w + 1) + take_bit 11 w"
    by (simp add: push_bit_eq_mult algebra_simps)
  finally show ?thesis by (simp only: add_or11)
qed

lemma field_sub: "((w :: u16) - push_bit 11 1) AND 0x3800 = push_bit 11 (take_bit 3 (drop_bit 11 w - 1))"
  unfolding sub_800
  by (rule bit_word_eqI) (auto simp add: bit_simps bit_3800_int)

lemma field_add: "((w :: u16) + push_bit 11 1) AND 0x3800 = push_bit 11 (take_bit 3 (drop_bit 11 w + 1))"
  unfolding add_800
  by (rule bit_word_eqI) (auto simp add: bit_simps bit_3800_int)


lemma sw_dec_eq:
  "((w :: u16) AND NOT 0x3800) OR ((w - push_bit 11 1) AND 0x3800) =
   (w AND NOT 0x3800) OR push_bit 11 (take_bit 3 (drop_bit 11 w - 1))"
  by (simp only: field_sub)

lemma sw_dec_top:
  "take_bit 3 (drop_bit 11 (((w :: u16) AND NOT 0x3800) OR ((w - push_bit 11 1) AND 0x3800))) =
   take_bit 3 (drop_bit 11 w - 1)"
  unfolding sw_dec_eq
  by (rule bit_word_eqI) (auto simp add: bit_simps bit_3800_int)

lemma sw_dec_rest:
  "(((w :: u16) AND NOT 0x3800) OR ((w - push_bit 11 1) AND 0x3800)) AND NOT 0x3800 = w AND NOT 0x3800"
  unfolding sw_dec_eq
  by (rule bit_word_eqI) (auto simp add: bit_simps bit_3800_int)

lemma mod8_of_mod: "(a mod 65536) mod 8 = (a :: nat) mod 8"
  by (rule mod_mod_cancel) simp

lemma take_bit3_succ: "take_bit 3 (x + 1) = take_bit 3 (take_bit 3 x + 1)" for x :: u16
proof -
  have "unat (take_bit 3 (x + 1)) = (unat x + 1) mod 8"
    by (simp add: unsigned_take_bit_eq take_bit_eq_mod unat_word_ariths mod8_of_mod)
  moreover have "unat (take_bit 3 (take_bit 3 x + 1)) = (unat x mod 8 + 1) mod 8"
    by (simp add: unsigned_take_bit_eq take_bit_eq_mod unat_word_ariths mod8_of_mod)
  ultimately show ?thesis
    by (simp add: word_unat_eq_iff mod_simps)
qed

lemma take_bit3_succ_pred: "take_bit 3 (take_bit 3 (h - 1) + 1) = take_bit 3 (h :: u16)"
  by (simp add: take_bit3_succ [symmetric])

lemma sw_top_roundtrip:
  "((((w :: u16) AND NOT 0x3800) OR ((w - push_bit 11 1) AND 0x3800)) AND NOT 0x3800) OR
   (((((w AND NOT 0x3800) OR ((w - push_bit 11 1) AND 0x3800))) + push_bit 11 1) AND 0x3800) = w"
proof -
  let ?w1 = "(w AND NOT 0x3800) OR ((w - push_bit 11 1) AND 0x3800)"
  have "take_bit 3 (drop_bit 11 ?w1 + 1) = take_bit 3 (take_bit 3 (drop_bit 11 ?w1) + 1)"
    by (rule take_bit3_succ)
  also have "\<dots> = take_bit 3 (take_bit 3 (drop_bit 11 w - 1) + 1)"
    by (simp only: sw_dec_top)
  also have "\<dots> = take_bit 3 (drop_bit 11 w)"
    by (rule take_bit3_succ_pred)
  finally have c: "take_bit 3 (drop_bit 11 ?w1 + 1) = take_bit 3 (drop_bit 11 w)" .
  have f1: "(?w1 + push_bit 11 1) AND 0x3800 = push_bit 11 (take_bit 3 (drop_bit 11 ?w1 + 1))"
    by (rule field_add)
  have f2: "w AND 0x3800 = push_bit 11 (take_bit 3 (drop_bit 11 w))"
    by (rule sw_field)
  have a: "(?w1 + push_bit 11 1) AND 0x3800 = w AND 0x3800"
    unfolding f1 f2 by (simp only: c)
  have b: "?w1 AND NOT 0x3800 = w AND NOT 0x3800"
    by (rule sw_dec_rest)
  have "(?w1 AND NOT 0x3800) OR ((?w1 + push_bit 11 1) AND 0x3800) = (w AND NOT 0x3800) OR (w AND 0x3800)"
    unfolding a b ..
  also have "\<dots> = w"
    by (rule bit_word_eqI) (auto simp add: bit_simps)
  finally show ?thesis .
qed



lemma k3_int: "(3 :: int) = mask 2"
  by (simp add: mask_eq_exp_minus_1)

lemma bit_3_int: "bit (3 :: int) n \<longleftrightarrow> n < 2"
  unfolding k3_int by (auto simp add: bit_simps)

lemma tag_get_set:
  "k \<le> 14 \<Longrightarrow>
   drop_bit k ((ucast (((tg :: u16) AND ucast (NOT (push_bit k (3 :: u32)))) OR ucast (push_bit k (t AND 3 :: u32))) :: u32)
               AND push_bit k 3) = t AND 3"
  apply (rule bit_word_eqI)
  apply (auto simp add: bit_simps bit_3_int)
  done

lemma tag_bits:
  assumes k: "k \<le> 14" and e: "drop_bit k ((ucast (tg :: u16) :: u32) AND push_bit k 3) = 3"
  shows "bit tg k \<and> bit tg (Suc k)"
proof -
  have "bit (drop_bit k ((ucast tg :: u32) AND push_bit k 3)) 0 = bit (3 :: u32) 0"
    by (simp only: e)
  moreover have "bit (drop_bit k ((ucast tg :: u32) AND push_bit k 3)) 1 = bit (3 :: u32) 1"
    by (simp only: e)
  ultimately show ?thesis using k
    by (auto simp add: bit_simps bit_3_int)
qed

lemma tag_restore:
  assumes k: "k \<le> 14" and e: "drop_bit k ((ucast (tg :: u16) :: u32) AND push_bit k 3) = 3"
  shows "((tg AND ucast (NOT (push_bit k (3 :: u32)))) AND ucast (NOT (push_bit k (3 :: u32))))
           OR ucast (push_bit k (3 :: u32)) = tg"
proof -
  from tag_bits [OF k e] have b: "bit tg k" "bit tg (Suc k)" by simp_all
  have c: "n = k \<or> n = Suc k" if "k \<le> n" "n - k < 2" for n
    using that by arith
  show ?thesis
    apply (rule bit_word_eqI)
    using b k apply (auto simp add: bit_simps bit_3_int dest: c)
    done
qed


lemma k7_int: "(7 :: int) = mask 3"
  by (simp add: mask_eq_exp_minus_1)

lemma bit_7_int: "bit (7 :: int) n \<longleftrightarrow> n < 3"
  unfolding k7_int by (auto simp add: bit_simps)

lemma fpu_top_eq: "fpu_top s = ucast (take_bit 3 (drop_bit 11 (sw (fpu s))))"
  unfolding fpu_top_def
  by (rule bit_word_eqI) (auto simp add: bit_simps bit_7_int bit_3800_int)

lemma imod8_of_mod: "(a mod 65536) mod 8 = (a :: int) mod 8"
  by (rule mod_mod_cancel) simp

lemma unat_take_bit3: "unat (take_bit 3 (x :: 'a::len word)) = unat x mod 8"
proof -
  have "unat (take_bit 3 x) = take_bit 3 (unat x)" by (simp only: unsigned_take_bit_eq)
  also have "\<dots> = unat x mod 8" by (simp add: take_bit_eq_mod)
  finally show ?thesis .
qed

lemma uint_take_bit3: "uint (take_bit 3 (x :: 'a::len word)) = uint x mod 8"
proof -
  have "uint (take_bit 3 x) = take_bit 3 (uint x)" by (simp only: unsigned_take_bit_eq)
  also have "\<dots> = uint x mod 8" by (simp add: take_bit_eq_mod)
  finally show ?thesis .
qed

lemma take_bit3_pred: "take_bit 3 (x - 1) = take_bit 3 (take_bit 3 x - 1)" for x :: u16
proof -
  have "uint (take_bit 3 (x - 1)) = (uint x - 1) mod 8"
    by (simp add: uint_take_bit3 uint_word_ariths imod8_of_mod)
  moreover have "uint (take_bit 3 (take_bit 3 x - 1)) = (uint x mod 8 - 1) mod 8"
    by (simp add: uint_take_bit3 uint_word_ariths imod8_of_mod)
  ultimately show ?thesis
    by (simp add: word_uint_eq_iff mod_simps)
qed

lemma small_word_cases:
  "unat (g :: u16) < 8 \<Longrightarrow> g = 0 \<or> g = 1 \<or> g = 2 \<or> g = 3 \<or> g = 4 \<or> g = 5 \<or> g = 6 \<or> g = 7"
proof -
  assume "unat g < 8"
  then have "unat g = 0 \<or> unat g = 1 \<or> unat g = 2 \<or> unat g = 3 \<or> unat g = 4 \<or> unat g = 5
     \<or> unat g = 6 \<or> unat g = 7"
    by arith
  then show ?thesis
    by (auto simp add: word_unat_eq_iff)
qed

lemma take_bit3_cases:
  "take_bit 3 (h :: u16) = 0 \<or> take_bit 3 h = 1 \<or> take_bit 3 h = 2 \<or> take_bit 3 h = 3 \<or>
   take_bit 3 h = 4 \<or> take_bit 3 h = 5 \<or> take_bit 3 h = 6 \<or> take_bit 3 h = 7"
proof (rule small_word_cases)
  show "unat (take_bit 3 h) < 8"
    by (simp add: unat_take_bit3)
qed

lemma slot_pred:
  "(ucast (take_bit 3 (h :: u16)) - 1 :: u32) AND 7 = ucast (take_bit 3 (h - 1)) AND 7"
proof -
  have "(ucast (take_bit 3 h) - 1 :: u32) AND 7 = ucast (take_bit 3 (take_bit 3 h - 1)) AND 7"
    using take_bit3_cases [of h] by (elim disjE) (simp_all add: mask_eq_exp_minus_1)
  then show ?thesis
    by (simp only: take_bit3_pred [symmetric])
qed

lemma slot_shift_le: "unat (((x :: u32) AND 7) * 2) \<le> 14"
proof -
  have "unat ((x AND 7) * 2) = (unat x mod 8) * 2"
  proof -
    have "(7 :: u32) = mask 3" by (simp add: mask_eq_exp_minus_1)
    then have "unat (x AND 7) = unat (take_bit 3 x)" by (simp add: take_bit_eq_mask)
    also have "\<dots> = take_bit 3 (unat x)" by (simp only: unsigned_take_bit_eq)
    also have "\<dots> = unat x mod 8" by (simp add: take_bit_eq_mod)
    finally have a: "unat (x AND 7) = unat x mod 8" .
    have "unat x mod 8 < 8" by simp
    then show ?thesis
      by (simp add: unat_word_ariths a)
  qed
  also have "\<dots> \<le> 14" 
  proof -
    have "unat x mod 8 < 8" by simp
    then show ?thesis by arith
  qed
  finally show ?thesis .
qed

lemma tag_get_cleared:
  "k \<le> 14 \<Longrightarrow>
   drop_bit k ((ucast ((tg :: u16) AND ucast (NOT (push_bit k (3 :: u32)))) :: u32) AND push_bit k 3) = 0"
  by (rule bit_word_eqI) (auto simp add: bit_simps bit_3_int)

lemma push_then_pop_state:
  assumes e: "FpuGetTag s (- 1) = kFpuTagEmpty"
  shows "FpuPush s x =
           s\<lparr>fpu := (fpu s)\<lparr>sw := (sw (fpu s) AND NOT kFpuSwSp) OR ((sw (fpu s) - push_bit 11 1) AND kFpuSwSp),
                              st := (st (fpu s))(unat ((fpu_top s - 1) AND 7) := x),
                              tw := tw (fpu s) AND ucast (NOT (push_bit (unat (((fpu_top s - 1) AND 7) * 2)) (3 :: u32)))\<rparr>\<rparr>"
    and "FpuPop (FpuPush s x) = (x, s\<lparr>fpu := (fpu s)\<lparr>st := (st (fpu s))(unat ((fpu_top s - 1) AND 7) := x)\<rparr>\<rparr>)"
    and "FpuGetTag (FpuPush s x) 0 = kFpuTagValid"
    and "fpu_top (FpuPush s x) AND 7 = (fpu_top s - 1) AND 7"
proof -
  define h where "h = drop_bit 11 (sw (fpu s))"
  define q :: u32 where "q = (fpu_top s - 1) AND 7"
  define k where "k = unat (q * 2)"
  have k: "k \<le> 14" unfolding k_def q_def by (rule slot_shift_le)
  have top0: "fpu_top s = ucast (take_bit 3 h)"
    by (simp add: fpu_top_eq h_def)
  let ?sw1 = "(sw (fpu s) AND NOT kFpuSwSp) OR ((sw (fpu s) - push_bit 11 1) AND kFpuSwSp)"
  have top1: "fpu_top t AND 7 = q" if "sw (fpu t) = ?sw1" for t :: cpu
  proof -
    have "fpu_top t = ucast (take_bit 3 (drop_bit 11 ?sw1))"
      by (simp add: fpu_top_eq that)
    also have "\<dots> = ucast (take_bit 3 (h - 1))"
      by (simp only: sw_dec_top h_def)
    finally show ?thesis
      by (simp only: q_def top0 slot_pred)
  qed
  have e': "drop_bit k ((ucast (tw (fpu s)) :: u32) AND push_bit k 3) = 3"
    using e by (simp add: FpuGetTag_def Let_def k_def q_def)
  show push: "FpuPush s x =
           s\<lparr>fpu := (fpu s)\<lparr>sw := ?sw1,
                              st := (st (fpu s))(unat ((fpu_top s - 1) AND 7) := x),
                              tw := tw (fpu s) AND ucast (NOT (push_bit (unat (((fpu_top s - 1) AND 7) * 2)) (3 :: u32)))\<rparr>\<rparr>"
    using e by (simp add: FpuPush_def Let_def FpuSt_def FpuSetTag_def top1 q_def)
  show get0: "FpuGetTag (FpuPush s x) 0 = 0"
    unfolding push
    by (simp add: FpuGetTag_def Let_def top1 tag_get_cleared [OF k, unfolded k_def q_def] q_def
        del: drop_bit_and)
  show "fpu_top (FpuPush s x) AND 7 = (fpu_top s - 1) AND 7"
    unfolding push by (simp add: top1 q_def)
  have sw_rt: "(?sw1 AND NOT kFpuSwSp) OR ((?sw1 + push_bit 11 1) AND kFpuSwSp) = sw (fpu s)"
    by (rule sw_top_roundtrip)
  have tw_rt: "((tw (fpu s) AND ucast (NOT (push_bit k (3 :: u32)))) AND ucast (NOT (push_bit k (3 :: u32))))
           OR ucast (push_bit k (3 :: u32)) = tw (fpu s)"
    by (rule tag_restore [OF k e'])
  show "FpuPop (FpuPush s x) = (x, s\<lparr>fpu := (fpu s)\<lparr>st := (st (fpu s))(unat ((fpu_top s - 1) AND 7) := x)\<rparr>\<rparr>)"
    using get0 sw_rt tw_rt
    apply (simp add: FpuPop_def Let_def)
    unfolding push
    apply (simp add: FpuSt_def FpuSetTag_def Let_def top1 q_def k_def)
    done
qed


lemma fpu_top_and7: "fpu_top s AND 7 = fpu_top s"
  unfolding fpu_top_eq
  by (rule bit_word_eqI) (auto simp add: bit_simps bit_7_int)

lemma fpu_top_succ_pred: "(((fpu_top s - 1) AND 7) + 1) AND 7 = fpu_top s"
proof -
  have "(((ucast (take_bit 3 h) - 1 :: u32) AND 7) + 1) AND 7 = ucast (take_bit 3 h)" for h :: u16
    using take_bit3_cases [of h] by (elim disjE) (simp_all add: mask_eq_exp_minus_1)
  then show ?thesis
    by (simp only: fpu_top_eq)
qed

lemma FpuGetTag_cong: "tw (fpu t) = tw (fpu s) \<Longrightarrow> sw (fpu t) = sw (fpu s) \<Longrightarrow> FpuGetTag t i = FpuGetTag s i"
  by (simp add: FpuGetTag_def fpu_top_def)


lemma fpu_push_top:
  assumes e: "FpuGetTag s (- 1) = kFpuTagEmpty"
  shows "fpu_top (FpuPush s x) = (fpu_top s - 1) AND 7"
    using push_then_pop_state(4) [OF e, of x] by (simp only: fpu_top_and7)

lemma fpu_push_sw_rest:
  assumes e: "FpuGetTag s (- 1) = kFpuTagEmpty"
  shows "sw (fpu (FpuPush s x)) AND NOT kFpuSwSp = sw (fpu s) AND NOT kFpuSwSp"
    unfolding push_then_pop_state(1) [OF e] using sw_dec_rest [of "sw (fpu s)"] by simp


lemma fpu_pop_top:
  assumes e: "FpuGetTag s (- 1) = kFpuTagEmpty"
  shows "fpu_top (snd (FpuPop (FpuPush s x))) = fpu_top s"
    by (simp add: push_then_pop_state(2) [OF e] fpu_top_def)

lemma fpu_pop_tag:
  assumes e: "FpuGetTag s (- 1) = kFpuTagEmpty"
  shows "FpuGetTag (snd (FpuPop (FpuPush s x))) (- 1) = kFpuTagEmpty"
proof -
  have "FpuGetTag (snd (FpuPop (FpuPush s x))) (- 1) = FpuGetTag s (- 1)"
    by (rule FpuGetTag_cong) (simp_all add: push_then_pop_state(2) [OF e])
  then show ?thesis by (simp only: e)
qed


text \<open>
  C8.  A \<^verbatim>\<open>double\<close> is carried as its bit pattern.  For a finite \<open>x\<close> and a state whose
  logical slot \<open>-1\<close> is tagged empty: \<^verbatim>\<open>FpuPush\<close> stores \<open>x\<close> in physical slot
  \<open>(top - 1) mod 8\<close>, makes that slot the top, tags it valid and changes no status bit
  outside the top field; the following \<^verbatim>\<open>FpuPop\<close> returns \<open>x\<close> bit for bit, tags the slot
  empty again and increments the top modulo 8.  After the pair the tag word and the whole
  status word (top field, stack-fault and invalid-operation bits included) are what they
  were; the only trace is \<open>x\<close> in the register slot.
\<close>

theorem fpu_push_pop_roundtrip:
  "fp_finite x \<Longrightarrow> FpuGetTag s (- 1) = kFpuTagEmpty \<Longrightarrow>
   fst (FpuPop (FpuPush s x)) = x \<and>
   tw (fpu (snd (FpuPop (FpuPush s x)))) = tw (fpu s) \<and>
   sw (fpu (snd (FpuPop (FpuPush s x)))) = sw (fpu s) \<and>
   snd (FpuPop (FpuPush s x)) =
     s\<lparr>fpu := (fpu s)\<lparr>st := (st (fpu s))(unat ((fpu_top s - 1) AND 7) := x)\<rparr>\<rparr> \<and>
   st (fpu (FpuPush s x)) (unat ((fpu_top s - 1) AND 7)) = x \<and>
   fpu_top (FpuPush s x) = (fpu_top s - 1) AND 7 \<and>
   FpuGetTag (FpuPush s x) 0 = kFpuTagValid \<and>
   sw (fpu (FpuPush s x)) AND NOT kFpuSwSp = sw (fpu s) AND NOT kFpuSwSp \<and>
   FpuGetTag (snd (FpuPop (FpuPush s x))) (- 1) = kFpuTagEmpty \<and>
   fpu_top (snd (FpuPop (FpuPush s x))) = (fpu_top (FpuPush s x) + 1) AND 7"
proof -
  assume e: "FpuGetTag s (- 1) = kFpuTagEmpty"
  note pp = push_then_pop_state [OF e, of x]
  have c1: "fst (FpuPop (FpuPush s x)) = x" by (simp only: pp(2) fst_conv)
  have c4: "snd (FpuPop (FpuPush s x)) =
     s\<lparr>fpu := (fpu s)\<lparr>st := (st (fpu s))(unat ((fpu_top s - 1) AND 7) := x)\<rparr>\<rparr>"
    by (simp only: pp(2) snd_conv)
  have c2: "tw (fpu (snd (FpuPop (FpuPush s x)))) = tw (fpu s)" unfolding c4 by simp
  have c3: "sw (fpu (snd (FpuPop (FpuPush s x)))) = sw (fpu s)" unfolding c4 by simp
  have c5: "st (fpu (FpuPush s x)) (unat ((fpu_top s - 1) AND 7)) = x" unfolding pp(1) by simp
  have c10: "fpu_top (snd (FpuPop (FpuPush s x))) = (fpu_top (FpuPush s x) + 1) AND 7"
    by (simp only: fpu_pop_top [OF e] fpu_push_top [OF e] fpu_top_succ_pred)
  from c1 c2 c3 c4 c5 fpu_push_top [OF e, of x] pp(3) fpu_push_sw_rest [OF e, of x]
    fpu_pop_tag [OF e, of x] c10
  show ?thesis by blast
qed

theorem fpu_push_pop_roundtrip_witness:
  "fp_finite double_one \<and> FpuGetTag fpu_init_input (- 1) = kFpuTagEmpty \<and>
   fst (FpuPop (FpuPush fpu_init_input double_one)) = double_one \<and>
   tw (fpu (snd (FpuPop (FpuPush fpu_init_input double_one)))) = 0xFFFF \<and>
   st (fpu (FpuPush fpu_init_input double_one)) 7 = double_one \<and>
   tw (fpu (FpuPush fpu_init_input double_one)) = 0x3FFF \<and>
   sw (fpu (FpuPush fpu_init_input double_one)) = 0x3800"
proof -
  have a: "fp_finite double_one"
    by (simp add: fp_finite_def double_one_def)
  have b: "FpuGetTag fpu_init_input (- 1) = kFpuTagEmpty"
    by (simp add: FpuGetTag_def fpu_top_def fpu_init_input_def OpFinit_def cpu_zero_def Let_def)
  have c: "FpuPush fpu_init_input double_one =
      fpu_init_input\<lparr>fpu := (fpu fpu_init_input)\<lparr>sw := 0x3800, st := (st (fpu fpu_init_input))(7 := double_one), tw := 0x3FFF\<rparr>\<rparr>"
    by (simp add: FpuPush_def FpuSetTag_def FpuSt_def FpuGetTag_def fpu_top_def fpu_init_input_def
        OpFinit_def cpu_zero_def Let_def)
  show ?thesis
    using fpu_push_pop_roundtrip [OF a b] a b
    by (simp add: c) (simp add: fpu_init_input_def OpFinit_def cpu_zero_def)
qed

end
